theory Spec2Isabelle
  imports Complex_Main
begin

section \<open>Tensors, errors and the library operations the model calls\<close>

text \<open>
  The program is \<^verbatim>\<open>model.py\<close>: a decoder-only transformer written with PyTorch.
  Tensor entries are modelled as real numbers. A tensor carries its shape next to its
  entries (nested lists), as a PyTorch tensor does, so that \<^verbatim>\<open>x.shape\<close> is defined
  for empty tensors too. The value \<^verbatim>\<open>float('-inf')\<close> written by \<^verbatim>\<open>masked_fill\<close> is
  \<open>None\<close> in a tensor of \<open>real option\<close>. Every exception of Python or PyTorch is a
  value of type \<open>error\<close>; \<open>NotFinite\<close> stands for the NaN that \<^verbatim>\<open>softmax\<close> yields on
  a row whose entries are all \<^verbatim>\<open>-inf\<close> (PyTorch does not raise there, the NaN is
  returned and spreads to the logits).
\<close>

datatype error = IndexError | ShapeError | ZeroDivisionError | ValueError | NotFinite | SampleError

definition and_then :: "error + 'a \<Rightarrow> ('a \<Rightarrow> error + 'b) \<Rightarrow> error + 'b" where
  "and_then r f = (case r of Inl e \<Rightarrow> Inl e | Inr v \<Rightarrow> f v)"

type_synonym vec = "real list"
type_synonym mat = "real list list"

text \<open>A tensor of shape \<open>(dimB, dimT, dimC)\<close>: \<open>dimB\<close> matrices of \<open>dimT\<close> rows of \<open>dimC\<close> entries.\<close>

record 'a tensor3 =
  dimB :: nat
  dimT :: nat
  dimC :: nat
  data :: "'a list list list"

text \<open>A tensor of shape \<open>(rows2, cols2)\<close>.\<close>

record 'a tensor2 =
  rows2 :: nat
  cols2 :: nat
  data2 :: "'a list list"

definition wf3 :: "'a tensor3 \<Rightarrow> bool" where
  "wf3 x = (length (data x) = dimB x \<and>
     list_all (\<lambda>m. length m = dimT x \<and> list_all (\<lambda>r. length r = dimC x) m) (data x))"

definition wf2 :: "'a tensor2 \<Rightarrow> bool" where
  "wf2 x = (length (data2 x) = rows2 x \<and> list_all (\<lambda>r. length r = cols2 x) (data2 x))"

definition dot :: "vec \<Rightarrow> vec \<Rightarrow> real" where
  "dot u v = sum_list (map2 (*) u v)"

subsection \<open>\<^verbatim>\<open>nn.Linear\<close>\<close>

record linear =
  in_features :: nat
  out_features :: nat
  weight :: mat
  bias :: "vec option"

definition wf_linear :: "linear \<Rightarrow> bool" where
  "wf_linear l = (length (weight l) = out_features l \<and>
     list_all (\<lambda>r. length r = in_features l) (weight l) \<and>
     (case bias l of None \<Rightarrow> True | Some b \<Rightarrow> length b = out_features l))"

definition linear_vec :: "linear \<Rightarrow> vec \<Rightarrow> vec" where
  "linear_vec l x =
     (case bias l of
        None \<Rightarrow> map (dot x) (weight l)
      | Some b \<Rightarrow> map2 (+) (map (dot x) (weight l)) b)"

definition Linear_forward :: "linear \<Rightarrow> real tensor3 \<Rightarrow> error + real tensor3" where
  "Linear_forward l x =
     (if dimC x \<noteq> in_features l then Inl ShapeError
      else Inr (x\<lparr>dimC := out_features l, data := map (map (linear_vec l)) (data x)\<rparr>))"

subsection \<open>\<^verbatim>\<open>nn.LayerNorm\<close>\<close>

record layer_norm =
  normalized_shape :: nat
  ln_weight :: vec
  ln_bias :: vec
  eps :: real

definition wf_layer_norm :: "layer_norm \<Rightarrow> bool" where
  "wf_layer_norm g = (length (ln_weight g) = normalized_shape g \<and>
     length (ln_bias g) = normalized_shape g \<and> 0 < eps g)"

definition mean :: "vec \<Rightarrow> real" where
  "mean xs = sum_list xs / real (length xs)"

definition variance :: "vec \<Rightarrow> real" where
  "variance xs = mean (map (\<lambda>v. (v - mean xs)\<^sup>2) xs)"

definition layer_norm_vec :: "layer_norm \<Rightarrow> vec \<Rightarrow> vec" where
  "layer_norm_vec g x =
     map2 (+) (map2 (*) (map (\<lambda>v. (v - mean x) / sqrt (variance x + eps g)) x) (ln_weight g))
       (ln_bias g)"

definition LayerNorm_forward :: "layer_norm \<Rightarrow> real tensor3 \<Rightarrow> error + real tensor3" where
  "LayerNorm_forward g x =
     (if dimC x \<noteq> normalized_shape g then Inl ShapeError
      else Inr (x\<lparr>data := map (map (layer_norm_vec g)) (data x)\<rparr>))"

subsection \<open>\<^verbatim>\<open>nn.Embedding\<close>, \<^verbatim>\<open>torch.arange\<close>\<close>

record embedding =
  num_embeddings :: nat
  embedding_dim :: nat
  emb_weight :: mat

definition wf_embedding :: "embedding \<Rightarrow> bool" where
  "wf_embedding e = (length (emb_weight e) = num_embeddings e \<and>
     list_all (\<lambda>r. length r = embedding_dim e) (emb_weight e))"

text \<open>A lookup of an index outside the table raises \<^verbatim>\<open>IndexError: index out of range in self\<close>.\<close>

definition Embedding_forward :: "embedding \<Rightarrow> nat tensor2 \<Rightarrow> error + real tensor3" where
  "Embedding_forward e idx =
     (if list_all (list_all (\<lambda>i. i < num_embeddings e)) (data2 idx)
      then Inr \<lparr>dimB = rows2 idx, dimT = cols2 idx, dimC = embedding_dim e,
                data = map (map (\<lambda>i. emb_weight e ! i)) (data2 idx)\<rparr>
      else Inl IndexError)"

definition arange :: "nat \<Rightarrow> nat list" where
  "arange T = [0..<T]"

definition Embedding_forward1 :: "embedding \<Rightarrow> nat list \<Rightarrow> error + real tensor2" where
  "Embedding_forward1 e is =
     (if list_all (\<lambda>i. i < num_embeddings e) is
      then Inr \<lparr>rows2 = length is, cols2 = embedding_dim e,
                data2 = map (\<lambda>i. emb_weight e ! i) is\<rparr>
      else Inl IndexError)"

subsection \<open>Matrix products, broadcasting, \<^verbatim>\<open>masked_fill\<close>, \<^verbatim>\<open>softmax\<close>, \<^verbatim>\<open>torch.cat\<close>\<close>

definition column :: "nat \<Rightarrow> 'a list list \<Rightarrow> 'a list" where
  "column j m = map (\<lambda>r. r ! j) m"

text \<open>\<^verbatim>\<open>x.transpose(-2, -1)\<close>\<close>

definition transpose_last :: "'a tensor3 \<Rightarrow> 'a tensor3" where
  "transpose_last x =
     \<lparr>dimB = dimB x, dimT = dimC x, dimC = dimT x,
      data = map (\<lambda>m. map (\<lambda>j. column j m) [0..<dimC x]) (data x)\<rparr>"

text \<open>\<^verbatim>\<open>a @ b\<close> on batches of matrices: \<open>(B, n, k) @ (B, k, p) = (B, n, p)\<close>.\<close>

definition matmul_mat :: "nat \<Rightarrow> mat \<Rightarrow> mat \<Rightarrow> mat" where
  "matmul_mat p a b = map (\<lambda>u. map (\<lambda>j. dot u (column j b)) [0..<p]) a"

definition matmul :: "real tensor3 \<Rightarrow> real tensor3 \<Rightarrow> error + real tensor3" where
  "matmul a b =
     (if dimB a \<noteq> dimB b \<or> dimC a \<noteq> dimT b then Inl ShapeError
      else Inr \<lparr>dimB = dimB a, dimT = dimT a, dimC = dimC b,
                data = map2 (matmul_mat (dimC b)) (data a) (data b)\<rparr>)"

text \<open>\<^verbatim>\<open>x * s\<close> for a Python number \<open>s\<close>.\<close>

definition scale :: "real tensor3 \<Rightarrow> real \<Rightarrow> real tensor3" where
  "scale x s = x\<lparr>data := map (map (map (\<lambda>v. v * s))) (data x)\<rparr>"

text \<open>
  \<^verbatim>\<open>C ** -0.5\<close> for a Python \<^verbatim>\<open>int\<close> \<open>C\<close>: Python raises \<^verbatim>\<open>ZeroDivisionError\<close> when
  \<open>C\<close> is \<open>0\<close>.
\<close>

definition pow_neg_half :: "nat \<Rightarrow> error + real" where
  "pow_neg_half C = (if C = 0 then Inl ZeroDivisionError else Inr (real C powr (- (1 / 2))))"

text \<open>\<^verbatim>\<open>m[:r, :c]\<close>: a slice never raises, it stops at the end of the tensor.\<close>

definition slice2 :: "nat \<Rightarrow> nat \<Rightarrow> 'a tensor2 \<Rightarrow> 'a tensor2" where
  "slice2 r c m =
     \<lparr>rows2 = min r (rows2 m), cols2 = min c (cols2 m), data2 = map (take c) (take r (data2 m))\<rparr>"

text \<open>\<^verbatim>\<open>m == 0\<close>\<close>

definition eq_zero :: "real tensor2 \<Rightarrow> bool tensor2" where
  "eq_zero m = \<lparr>rows2 = rows2 m, cols2 = cols2 m, data2 = map (map (\<lambda>v. v = 0)) (data2 m)\<rparr>"

text \<open>
  Broadcasting of a matrix to the shape \<open>(r, c)\<close>: a dimension of the matrix must be the
  wanted one or 1 (its only entry is then repeated); anything else raises.
\<close>

definition broadcast2 :: "nat \<Rightarrow> nat \<Rightarrow> 'a tensor2 \<Rightarrow> error + 'a list list" where
  "broadcast2 r c m =
     (if (rows2 m = r \<or> rows2 m = 1) \<and> (cols2 m = c \<or> cols2 m = 1)
      then Inr (let rs = map (\<lambda>row. if cols2 m = c then row else replicate c (row ! 0)) (data2 m)
                in if rows2 m = r then rs else replicate r (rs ! 0))
      else Inl ShapeError)"

text \<open>\<^verbatim>\<open>x.masked_fill(mask, float('-inf'))\<close>: \<open>None\<close> is \<^verbatim>\<open>-inf\<close>.\<close>

definition masked_fill :: "real tensor3 \<Rightarrow> bool tensor2 \<Rightarrow> error + real option tensor3" where
  "masked_fill x msk =
     and_then (broadcast2 (dimT x) (dimC x) msk) (\<lambda>mk.
       Inr \<lparr>dimB = dimB x, dimT = dimT x, dimC = dimC x,
            data = map (\<lambda>m. map2 (map2 (\<lambda>fill v. if fill then None else Some v)) mk m) (data x)\<rparr>)"

text \<open>
  \<^verbatim>\<open>F.softmax(x, dim=-1)\<close>, with \<open>exp (-inf) = 0\<close>. A non-empty row of \<^verbatim>\<open>-inf\<close> only
  gives \<open>0 / 0\<close>, NaN in PyTorch: the outcome \<open>NotFinite\<close>.
\<close>

definition expo :: "real option \<Rightarrow> real" where
  "expo v = (case v of None \<Rightarrow> 0 | Some r \<Rightarrow> exp r)"

definition softmax_vec :: "real option list \<Rightarrow> vec" where
  "softmax_vec s = map (\<lambda>v. expo v / sum_list (map expo s)) s"

definition fully_masked :: "real option list \<Rightarrow> bool" where
  "fully_masked s = (s \<noteq> [] \<and> list_all (\<lambda>v. v = None) s)"

definition softmax :: "real option tensor3 \<Rightarrow> error + real tensor3" where
  "softmax x =
     (if list_ex (list_ex fully_masked) (data x) then Inl NotFinite
      else Inr \<lparr>dimB = dimB x, dimT = dimT x, dimC = dimC x,
                data = map (map softmax_vec) (data x)\<rparr>)"

text \<open>
  \<^verbatim>\<open>nn.Dropout\<close> with the module in evaluation mode (or with probability 0) returns its
  input; the model is the program with dropout disabled.
\<close>

definition Dropout_forward :: "real \<Rightarrow> 'a \<Rightarrow> 'a" where
  "Dropout_forward p x = x"

text \<open>\<^verbatim>\<open>torch.cat(xs, dim=-1)\<close>: raises on an empty list and on tensors that differ in another dimension.\<close>

fun cat_last :: "real tensor3 list \<Rightarrow> error + real tensor3" where
  "cat_last [] = Inl ShapeError"
| "cat_last [x] = Inr x"
| "cat_last (x # xs) =
     and_then (cat_last xs) (\<lambda>y.
       if dimB x \<noteq> dimB y \<or> dimT x \<noteq> dimT y then Inl ShapeError
       else Inr \<lparr>dimB = dimB x, dimT = dimT x, dimC = dimC x + dimC y,
                 data = map2 (map2 (@)) (data x) (data y)\<rparr>)"

text \<open>\<^verbatim>\<open>x + y\<close> on tensors of one shape.\<close>

definition add3 :: "real tensor3 \<Rightarrow> real tensor3 \<Rightarrow> error + real tensor3" where
  "add3 x y =
     (if dimB x \<noteq> dimB y \<or> dimT x \<noteq> dimT y \<or> dimC x \<noteq> dimC y then Inl ShapeError
      else Inr (x\<lparr>data := map2 (map2 (map2 (+))) (data x) (data y)\<rparr>))"

text \<open>\<^verbatim>\<open>x + p\<close> for \<open>x\<close> of shape \<open>(B, T, C)\<close> and \<open>p\<close> of shape \<open>(T, C)\<close>: \<open>p\<close> is added to every matrix of \<open>x\<close>.\<close>

definition add_broadcast :: "real tensor3 \<Rightarrow> real tensor2 \<Rightarrow> error + real tensor3" where
  "add_broadcast x p =
     (if dimT x \<noteq> rows2 p \<or> dimC x \<noteq> cols2 p then Inl ShapeError
      else Inr (x\<lparr>data := map (\<lambda>m. map2 (map2 (+)) m (data2 p)) (data x)\<rparr>))"

text \<open>
  \<^verbatim>\<open>nn.GELU()\<close>: \<open>x * \<Phi>(x)\<close> with \<open>\<Phi>\<close> the standard normal distribution function, written
  with the power series of the error function.
\<close>

definition erf :: "real \<Rightarrow> real" where
  "erf x = 2 / sqrt pi * (\<Sum>n. (- 1) ^ n * x ^ (2 * n + 1) / (fact n * real (2 * n + 1)))"

definition GELU :: "real \<Rightarrow> real" where
  "GELU v = v * (1 / 2) * (1 + erf (v / sqrt 2))"

section \<open>The modules of \<^verbatim>\<open>model.py\<close>\<close>

record config =
  vocab_size :: nat
  n_embd :: nat
  n_head :: nat
  n_layer :: nat
  block_size :: nat
  dropout :: real

subsection \<open>\<^verbatim>\<open>Head\<close>\<close>

record head =
  key :: linear
  query :: linear
  val :: linear
  tril :: "real tensor2"
  head_dropout :: real

text \<open>
  The attention scores of lines 26 to 30: \<^verbatim>\<open>q @ k.transpose(-2, -1) * C**-0.5\<close>. In
  Python \<^verbatim>\<open>@\<close> and \<^verbatim>\<open>*\<close> associate to the left and \<^verbatim>\<open>**\<close> binds tighter, so the
  product of the matrices is taken first and then multiplied by \<^verbatim>\<open>C ** (-0.5)\<close>.
\<close>

definition Head_affinities :: "head \<Rightarrow> real tensor3 \<Rightarrow> error + real tensor3" where
  "Head_affinities h x =
     (let B = dimB x; T = dimT x; C = dimC x in
      and_then (Linear_forward (key h) x) (\<lambda>k.
      and_then (Linear_forward (query h) x) (\<lambda>q.
      and_then (matmul q (transpose_last k)) (\<lambda>qk.
      and_then (pow_neg_half C) (\<lambda>s.
      Inr (scale qk s))))))"

definition Head_forward :: "head \<Rightarrow> real tensor3 \<Rightarrow> error + real tensor3" where
  "Head_forward h x =
     (let B = dimB x; T = dimT x; C = dimC x in
      and_then (Head_affinities h x) (\<lambda>wei.
      and_then (masked_fill wei (eq_zero (slice2 T T (tril h)))) (\<lambda>wei.
      and_then (softmax wei) (\<lambda>wei.
      let wei = Dropout_forward (head_dropout h) wei in
      and_then (Linear_forward (val h) x) (\<lambda>v.
      matmul wei v)))))"

subsection \<open>\<^verbatim>\<open>MultiHeadAttention\<close>\<close>

record multi_head_attention =
  heads :: "head list"
  proj :: linear
  mha_dropout :: real

fun collect :: "(error + 'a) list \<Rightarrow> error + 'a list" where
  "collect [] = Inr []"
| "collect (r # rs) = and_then r (\<lambda>v. and_then (collect rs) (\<lambda>vs. Inr (v # vs)))"

definition MultiHeadAttention_forward :: "multi_head_attention \<Rightarrow> real tensor3 \<Rightarrow> error + real tensor3" where
  "MultiHeadAttention_forward a x =
     and_then (collect (map (\<lambda>h. Head_forward h x) (heads a))) (\<lambda>outs.
     and_then (cat_last outs) (\<lambda>out.
     and_then (Linear_forward (proj a) out) (\<lambda>out.
     Inr (Dropout_forward (mha_dropout a) out))))"

subsection \<open>\<^verbatim>\<open>FeedForward\<close>\<close>

text \<open>\<^verbatim>\<open>nn.Sequential(Linear, GELU, Linear, Dropout)\<close>: the fields are the layers in order.\<close>

record feed_forward =
  net_0 :: linear
  net_2 :: linear
  net_3 :: real

definition GELU_forward :: "real tensor3 \<Rightarrow> real tensor3" where
  "GELU_forward x = x\<lparr>data := map (map (map GELU)) (data x)\<rparr>"

definition FeedForward_forward :: "feed_forward \<Rightarrow> real tensor3 \<Rightarrow> error + real tensor3" where
  "FeedForward_forward f x =
     and_then (Linear_forward (net_0 f) x) (\<lambda>x.
     let x = GELU_forward x in
     and_then (Linear_forward (net_2 f) x) (\<lambda>x.
     Inr (Dropout_forward (net_3 f) x)))"

subsection \<open>\<^verbatim>\<open>Block\<close>\<close>

record block =
  sa :: multi_head_attention
  ffwd :: feed_forward
  ln1 :: layer_norm
  ln2 :: layer_norm

definition Block_forward :: "block \<Rightarrow> real tensor3 \<Rightarrow> error + real tensor3" where
  "Block_forward b x =
     and_then (LayerNorm_forward (ln1 b) x) (\<lambda>n1.
     and_then (MultiHeadAttention_forward (sa b) n1) (\<lambda>a.
     and_then (add3 x a) (\<lambda>x.
     and_then (LayerNorm_forward (ln2 b) x) (\<lambda>n2.
     and_then (FeedForward_forward (ffwd b) n2) (\<lambda>f.
     add3 x f)))))"

text \<open>\<^verbatim>\<open>nn.Sequential(*blocks)\<close>: the blocks in order, each on the result of the one before.\<close>

fun Sequential_forward :: "block list \<Rightarrow> real tensor3 \<Rightarrow> error + real tensor3" where
  "Sequential_forward [] x = Inr x"
| "Sequential_forward (b # bs) x = and_then (Block_forward b x) (Sequential_forward bs)"

subsection \<open>\<^verbatim>\<open>BigramLanguageModel\<close>\<close>

record bigram_language_model =
  model_config :: config
  token_embedding_table :: embedding
  position_embedding_table :: embedding
  blocks :: "block list"
  ln_f :: layer_norm
  lm_head :: linear

text \<open>
  \<^verbatim>\<open>x.view(n, c)\<close> of a tensor of shape \<open>(B, T, C)\<close>, and \<^verbatim>\<open>t.view(n)\<close> of one of shape
  \<open>(B, T)\<close>: the entries in order under the new shape, which must hold as many.
\<close>

definition view2 :: "nat \<Rightarrow> nat \<Rightarrow> real tensor3 \<Rightarrow> error + real tensor2" where
  "view2 n c x =
     (if n * c \<noteq> dimB x * dimT x * dimC x \<or> c \<noteq> dimC x then Inl ShapeError
      else Inr \<lparr>rows2 = n, cols2 = c, data2 = concat (data x)\<rparr>)"

definition view1 :: "nat \<Rightarrow> nat tensor2 \<Rightarrow> error + nat list" where
  "view1 n t =
     (if n \<noteq> rows2 t * cols2 t then Inl ShapeError else Inr (concat (data2 t)))"

text \<open>
  The second component of the result of \<^verbatim>\<open>forward\<close>: Python's \<^verbatim>\<open>None\<close>, or the loss, a
  number or NaN.
\<close>

datatype loss = Absent | Loss real | NaN

text \<open>
  \<^verbatim>\<open>F.cross_entropy(logits, targets)\<close> on logits of shape \<open>(N, C)\<close> and \<open>N\<close> class indices:
  the mean over the rows of minus the logarithm of the softmax at the target. A target
  outside the classes raises; the mean of no rows is NaN.
\<close>

definition nll_row :: "vec \<Rightarrow> nat \<Rightarrow> real" where
  "nll_row l t = - ln (exp (l ! t) / sum_list (map exp l))"

definition cross_entropy :: "real tensor2 \<Rightarrow> nat list \<Rightarrow> error + loss" where
  "cross_entropy logits targets =
     (if rows2 logits \<noteq> length targets then Inl ShapeError
      else if \<not> list_all (\<lambda>t. t < cols2 logits) targets then Inl IndexError
      else if targets = [] then Inr NaN
      else Inr (Loss (sum_list (map2 nll_row (data2 logits) targets) / real (length targets))))"

text \<open>The first component of the result of \<^verbatim>\<open>forward\<close>: of three dimensions, or of two after \<^verbatim>\<open>view\<close>.\<close>

datatype logits = Logits3 "real tensor3" | Logits2 "real tensor2"

definition BigramLanguageModel_forward ::
  "bigram_language_model \<Rightarrow> nat tensor2 \<Rightarrow> nat tensor2 option \<Rightarrow> error + logits \<times> loss" where
  "BigramLanguageModel_forward m idx targets =
     (let B = rows2 idx; T = cols2 idx in
      and_then (Embedding_forward (token_embedding_table m) idx) (\<lambda>tok_emb.
      and_then (Embedding_forward1 (position_embedding_table m) (arange T)) (\<lambda>pos_emb.
      and_then (add_broadcast tok_emb pos_emb) (\<lambda>x.
      and_then (Sequential_forward (blocks m) x) (\<lambda>x.
      and_then (LayerNorm_forward (ln_f m) x) (\<lambda>x.
      and_then (Linear_forward (lm_head m) x) (\<lambda>logits.
      case targets of
        None \<Rightarrow> Inr (Logits3 logits, Absent)
      | Some targets \<Rightarrow>
          (let B = dimB logits; T = dimT logits; C = dimC logits in
           and_then (view2 (B * T) C logits) (\<lambda>logits.
           and_then (view1 (B * T) targets) (\<lambda>targets.
           and_then (cross_entropy logits targets) (\<lambda>loss.
           Inr (Logits2 logits, loss))))))))))))"

subsection \<open>\<^verbatim>\<open>BigramLanguageModel.generate\<close>\<close>

text \<open>
  \<^verbatim>\<open>idx[:, -n:]\<close> for \<open>n \<ge> 0\<close>: the last \<open>n\<close> columns, all of them when there are fewer;
  \<^verbatim>\<open>-0\<close> is \<open>0\<close> in Python, so \<open>n = 0\<close> gives the whole tensor.
\<close>

definition slice_last :: "nat \<Rightarrow> 'a tensor2 \<Rightarrow> 'a tensor2" where
  "slice_last n t =
     (if n = 0 then t
      else \<lparr>rows2 = rows2 t, cols2 = min n (cols2 t),
            data2 = map (\<lambda>r. drop (length r - n) r) (data2 t)\<rparr>)"

text \<open>
  \<^verbatim>\<open>logits[:, -1, :]\<close>: the last row of every matrix. It raises \<^verbatim>\<open>IndexError\<close> when
  there is no row, and on a tensor of two dimensions (too many indices).
\<close>

definition select_last :: "logits \<Rightarrow> error + real tensor2" where
  "select_last l =
     (case l of
        Logits2 x \<Rightarrow> Inl IndexError
      | Logits3 x \<Rightarrow>
          if dimT x = 0 then Inl IndexError
          else Inr \<lparr>rows2 = dimB x, cols2 = dimC x, data2 = map last (data x)\<rparr>)"

text \<open>\<^verbatim>\<open>F.softmax(x, dim=-1)\<close> on a matrix of finite entries.\<close>

definition softmax2 :: "real tensor2 \<Rightarrow> real tensor2" where
  "softmax2 x = x\<lparr>data2 := map (\<lambda>r. softmax_vec (map Some r)) (data2 x)\<rparr>"

text \<open>
  \<^verbatim>\<open>torch.multinomial(probs, num_samples=1)\<close> draws one class index for every row of
  \<open>probs\<close>. The random draw is the parameter \<open>draw\<close>: from the state \<open>s\<close> of the random
  number generator and a row of probabilities it gives the index drawn and the next
  state. PyTorch rejects rows with no class (one sample cannot be drawn from none); of a
  tensor with no row it returns the tensor of shape \<open>(0, 1)\<close>.
\<close>

type_synonym 's sampler = "'s \<Rightarrow> vec \<Rightarrow> nat \<times> 's"

fun multinomial_rows :: "'s sampler \<Rightarrow> 's \<Rightarrow> vec list \<Rightarrow> nat list list \<times> 's" where
  "multinomial_rows draw s [] = ([], s)"
| "multinomial_rows draw s (p # ps) =
     (case draw s p of (i, s1) \<Rightarrow>
        (case multinomial_rows draw s1 ps of (js, s2) \<Rightarrow> ([i] # js, s2)))"

definition multinomial :: "'s sampler \<Rightarrow> 's \<Rightarrow> real tensor2 \<Rightarrow> error + nat tensor2 \<times> 's" where
  "multinomial draw s probs =
     (if cols2 probs = 0 then Inl SampleError
      else case multinomial_rows draw s (data2 probs) of
             (d, s') \<Rightarrow> Inr (\<lparr>rows2 = rows2 probs, cols2 = 1, data2 = d\<rparr>, s'))"

text \<open>\<^verbatim>\<open>torch.cat((a, b), dim=1)\<close> on matrices.\<close>

definition cat1 :: "'a tensor2 \<Rightarrow> 'a tensor2 \<Rightarrow> error + 'a tensor2" where
  "cat1 a b =
     (if rows2 a \<noteq> rows2 b then Inl ShapeError
      else Inr \<lparr>rows2 = rows2 a, cols2 = cols2 a + cols2 b, data2 = map2 (@) (data2 a) (data2 b)\<rparr>)"

text \<open>
  The probabilities of the next token that one iteration of the loop of \<^verbatim>\<open>generate\<close>
  computes from the running sequence \<open>idx\<close> (lines 121 to 125).
\<close>

definition next_token_probs :: "bigram_language_model \<Rightarrow> nat tensor2 \<Rightarrow> error + real tensor2" where
  "next_token_probs m idx =
     (let idx_cond = slice_last (block_size (model_config m)) idx in
      and_then (BigramLanguageModel_forward m idx_cond None) (\<lambda>(logits, loss).
      and_then (select_last logits) (\<lambda>logits.
      Inr (softmax2 logits))))"

fun generate ::
  "bigram_language_model \<Rightarrow> 's sampler \<Rightarrow> 's \<Rightarrow> nat tensor2 \<Rightarrow> nat \<Rightarrow> error + nat tensor2 \<times> 's" where
  "generate m draw s idx 0 = Inr (idx, s)"
| "generate m draw s idx (Suc k) =
     and_then (next_token_probs m idx) (\<lambda>probs.
     and_then (multinomial draw s probs) (\<lambda>(idx_next, s').
     and_then (cat1 idx idx_next) (\<lambda>idx.
     generate m draw s' idx k)))"

section \<open>Construction\<close>

text \<open>
  The constructors of PyTorch fill the learned parameters with random numbers. Here they
  are read from a sequence \<open>src\<close> of reals, from position \<open>n\<close> on; every constructor
  returns the position after the numbers it has read.
\<close>

definition new_matrix :: "(nat \<Rightarrow> real) \<Rightarrow> nat \<Rightarrow> nat \<Rightarrow> nat \<Rightarrow> mat" where
  "new_matrix src n r c = map (\<lambda>i. map (\<lambda>j. src (n + i * c + j)) [0..<c]) [0..<r]"

definition Linear_init :: "(nat \<Rightarrow> real) \<Rightarrow> nat \<Rightarrow> nat \<Rightarrow> bool \<Rightarrow> nat \<Rightarrow> linear \<times> nat" where
  "Linear_init src fin fout b n =
     (\<lparr>in_features = fin, out_features = fout, weight = new_matrix src n fout fin,
       bias = (if b then Some (map (\<lambda>j. src (n + fout * fin + j)) [0..<fout]) else None)\<rparr>,
      n + fout * fin + (if b then fout else 0))"

definition Embedding_init :: "(nat \<Rightarrow> real) \<Rightarrow> nat \<Rightarrow> nat \<Rightarrow> nat \<Rightarrow> embedding \<times> nat" where
  "Embedding_init src num d n =
     (\<lparr>num_embeddings = num, embedding_dim = d, emb_weight = new_matrix src n num d\<rparr>, n + num * d)"

text \<open>\<^verbatim>\<open>nn.LayerNorm(d)\<close>: weight 1, bias 0, \<^verbatim>\<open>eps=1e-5\<close>.\<close>

definition LayerNorm_init :: "nat \<Rightarrow> layer_norm" where
  "LayerNorm_init d =
     \<lparr>normalized_shape = d, ln_weight = replicate d 1, ln_bias = replicate d 0, eps = 1 / 100000\<rparr>"

text \<open>\<^verbatim>\<open>nn.Dropout(p)\<close> raises \<^verbatim>\<open>ValueError\<close> unless \<open>0 \<le> p \<le> 1\<close>.\<close>

definition Dropout_init :: "real \<Rightarrow> error + real" where
  "Dropout_init p = (if p < 0 \<or> 1 < p then Inl ValueError else Inr p)"

text \<open>\<^verbatim>\<open>torch.tril(torch.ones(n, n))\<close>\<close>

definition tril_ones :: "nat \<Rightarrow> real tensor2" where
  "tril_ones n =
     \<lparr>rows2 = n, cols2 = n, data2 = map (\<lambda>i. map (\<lambda>j. if j \<le> i then 1 else 0) [0..<n]) [0..<n]\<rparr>"

definition Head_init :: "(nat \<Rightarrow> real) \<Rightarrow> nat \<Rightarrow> config \<Rightarrow> nat \<Rightarrow> error + head \<times> nat" where
  "Head_init src head_size config n =
     (case Linear_init src (n_embd config) head_size False n of (k, n1) \<Rightarrow>
      case Linear_init src (n_embd config) head_size False n1 of (q, n2) \<Rightarrow>
      case Linear_init src (n_embd config) head_size False n2 of (v, n3) \<Rightarrow>
      and_then (Dropout_init (dropout config)) (\<lambda>d.
      Inr (\<lparr>key = k, query = q, val = v, tril = tril_ones (block_size config),
            head_dropout = d\<rparr>, n3)))"

text \<open>\<^verbatim>\<open>[Head(head_size, config) for _ in range(num_heads)]\<close>\<close>

fun Heads_init :: "(nat \<Rightarrow> real) \<Rightarrow> nat \<Rightarrow> config \<Rightarrow> nat \<Rightarrow> nat \<Rightarrow> error + head list \<times> nat" where
  "Heads_init src head_size config 0 n = Inr ([], n)"
| "Heads_init src head_size config (Suc k) n =
     and_then (Head_init src head_size config n) (\<lambda>(h, n1).
     and_then (Heads_init src head_size config k n1) (\<lambda>(hs, n2).
     Inr (h # hs, n2)))"

definition MultiHeadAttention_init ::
  "(nat \<Rightarrow> real) \<Rightarrow> nat \<Rightarrow> nat \<Rightarrow> config \<Rightarrow> nat \<Rightarrow> error + multi_head_attention \<times> nat" where
  "MultiHeadAttention_init src num_heads head_size config n =
     and_then (Heads_init src head_size config num_heads n) (\<lambda>(hs, n1).
     case Linear_init src (n_embd config) (n_embd config) True n1 of (p, n2) \<Rightarrow>
     and_then (Dropout_init (dropout config)) (\<lambda>d.
     Inr (\<lparr>heads = hs, proj = p, mha_dropout = d\<rparr>, n2)))"

definition FeedForward_init :: "(nat \<Rightarrow> real) \<Rightarrow> nat \<Rightarrow> config \<Rightarrow> nat \<Rightarrow> error + feed_forward \<times> nat" where
  "FeedForward_init src embd config n =
     (case Linear_init src embd (4 * embd) True n of (l0, n1) \<Rightarrow>
      case Linear_init src (4 * embd) embd True n1 of (l2, n2) \<Rightarrow>
      and_then (Dropout_init (dropout config)) (\<lambda>d.
      Inr (\<lparr>net_0 = l0, net_2 = l2, net_3 = d\<rparr>, n2)))"

text \<open>
  \<^verbatim>\<open>n_embd // n_head\<close> is Python's floor division of integers: it raises
  \<^verbatim>\<open>ZeroDivisionError\<close> for the divisor 0 and nothing else.
\<close>

definition floordiv :: "nat \<Rightarrow> nat \<Rightarrow> error + nat" where
  "floordiv a b = (if b = 0 then Inl ZeroDivisionError else Inr (a div b))"

definition Block_init :: "(nat \<Rightarrow> real) \<Rightarrow> config \<Rightarrow> nat \<Rightarrow> nat \<Rightarrow> nat \<Rightarrow> error + block \<times> nat" where
  "Block_init src config embd nhead n =
     and_then (floordiv embd nhead) (\<lambda>head_size.
     and_then (MultiHeadAttention_init src nhead head_size config n) (\<lambda>(a, n1).
     and_then (FeedForward_init src embd config n1) (\<lambda>(f, n2).
     Inr (\<lparr>sa = a, ffwd = f, ln1 = LayerNorm_init embd, ln2 = LayerNorm_init embd\<rparr>, n2))))"

text \<open>\<^verbatim>\<open>[Block(config, config.n_embd, n_head=config.n_head) for _ in range(config.n_layer)]\<close>\<close>

fun Blocks_init :: "(nat \<Rightarrow> real) \<Rightarrow> config \<Rightarrow> nat \<Rightarrow> nat \<Rightarrow> error + block list \<times> nat" where
  "Blocks_init src config 0 n = Inr ([], n)"
| "Blocks_init src config (Suc k) n =
     and_then (Block_init src config (n_embd config) (n_head config) n) (\<lambda>(b, n1).
     and_then (Blocks_init src config k n1) (\<lambda>(bs, n2).
     Inr (b # bs, n2)))"

definition BigramLanguageModel_init ::
  "(nat \<Rightarrow> real) \<Rightarrow> config \<Rightarrow> nat \<Rightarrow> error + bigram_language_model \<times> nat" where
  "BigramLanguageModel_init src config n =
     (case Embedding_init src (vocab_size config) (n_embd config) n of (te, n1) \<Rightarrow>
      case Embedding_init src (block_size config) (n_embd config) n1 of (pe, n2) \<Rightarrow>
      and_then (Blocks_init src config (n_layer config) n2) (\<lambda>(bs, n3).
      case Linear_init src (n_embd config) (vocab_size config) True n3 of (lm, n4) \<Rightarrow>
      Inr (\<lparr>model_config = config, token_embedding_table = te, position_embedding_table = pe,
            blocks = bs, ln_f = LayerNorm_init (n_embd config), lm_head = lm\<rparr>, n4)))"

section \<open>Well-formed models\<close>

text \<open>
  The shapes that the constructors give to the parameters of a model with configuration
  \<open>c\<close>. Training changes the entries of the parameters, never their shapes, and never
  the buffer \<open>tril\<close>.
\<close>

definition shaped :: "nat \<Rightarrow> nat \<Rightarrow> bool \<Rightarrow> linear \<Rightarrow> bool" where
  "shaped fin fout b l =
     (wf_linear l \<and> in_features l = fin \<and> out_features l = fout \<and> (bias l \<noteq> None) = b)"

definition wf_head :: "config \<Rightarrow> nat \<Rightarrow> head \<Rightarrow> bool" where
  "wf_head c head_size h =
     (shaped (n_embd c) head_size False (key h) \<and>
      shaped (n_embd c) head_size False (query h) \<and>
      shaped (n_embd c) head_size False (val h) \<and>
      tril h = tril_ones (block_size c))"

definition wf_multi_head_attention :: "config \<Rightarrow> multi_head_attention \<Rightarrow> bool" where
  "wf_multi_head_attention c a =
     (length (heads a) = n_head c \<and>
      list_all (wf_head c (n_embd c div n_head c)) (heads a) \<and>
      shaped (n_embd c) (n_embd c) True (proj a))"

definition wf_feed_forward :: "config \<Rightarrow> feed_forward \<Rightarrow> bool" where
  "wf_feed_forward c f =
     (shaped (n_embd c) (4 * n_embd c) True (net_0 f) \<and>
      shaped (4 * n_embd c) (n_embd c) True (net_2 f))"

definition wf_norm :: "config \<Rightarrow> layer_norm \<Rightarrow> bool" where
  "wf_norm c g = (wf_layer_norm g \<and> normalized_shape g = n_embd c)"

definition wf_block :: "config \<Rightarrow> block \<Rightarrow> bool" where
  "wf_block c b =
     (0 < n_head c \<and> wf_multi_head_attention c (sa b) \<and> wf_feed_forward c (ffwd b) \<and>
      wf_norm c (ln1 b) \<and> wf_norm c (ln2 b))"

definition wf_model :: "bigram_language_model \<Rightarrow> bool" where
  "wf_model m =
     (let c = model_config m in
      wf_embedding (token_embedding_table m) \<and>
      num_embeddings (token_embedding_table m) = vocab_size c \<and>
      embedding_dim (token_embedding_table m) = n_embd c \<and>
      wf_embedding (position_embedding_table m) \<and>
      num_embeddings (position_embedding_table m) = block_size c \<and>
      embedding_dim (position_embedding_table m) = n_embd c \<and>
      length (blocks m) = n_layer c \<and>
      list_all (wf_block c) (blocks m) \<and>
      wf_norm c (ln_f m) \<and>
      shaped (n_embd c) (vocab_size c) True (lm_head m))"

text \<open>
  The configurations the program is written for: \<open>n_head\<close> divides \<open>n_embd\<close>, and the
  embedding has a positive width.
\<close>

definition valid_config :: "config \<Rightarrow> bool" where
  "valid_config c = (0 < n_head c \<and> n_embd c mod n_head c = 0 \<and> 0 < n_embd c)"

text \<open>A batch of token sequences for a model: of the shape it says, every token in the vocabulary.\<close>

definition tokens_ok :: "bigram_language_model \<Rightarrow> nat tensor2 \<Rightarrow> bool" where
  "tokens_ok m idx =
     (wf2 idx \<and> list_all (list_all (\<lambda>t. t < vocab_size (model_config m))) (data2 idx))"

section \<open>Auxiliary definitions for the proofs\<close>

text \<open>
  One sequence of the batch in a head: the scaled score of the positions \<open>i\<close> and \<open>j\<close>, the
  matrix of the scores, a row of it after the causal mask, and the output of the head.
\<close>

definition aff :: "head \<Rightarrow> real \<Rightarrow> mat \<Rightarrow> nat \<Rightarrow> nat \<Rightarrow> real" where
  "aff h s xm i j = dot (linear_vec (query h) (xm ! i)) (linear_vec (key h) (xm ! j)) * s"

definition aff_mat :: "head \<Rightarrow> real \<Rightarrow> mat \<Rightarrow> mat" where
  "aff_mat h s xm = map (\<lambda>i. map (\<lambda>j. aff h s xm i j) [0..<length xm]) [0..<length xm]"

definition masked_row :: "head \<Rightarrow> real \<Rightarrow> mat \<Rightarrow> nat \<Rightarrow> real option list" where
  "masked_row h s xm i = map (\<lambda>j. if i < j then None else Some (aff h s xm i j)) [0..<length xm]"

definition head_mat :: "head \<Rightarrow> real \<Rightarrow> mat \<Rightarrow> mat" where
  "head_mat h s xm =
     map (\<lambda>i. map (\<lambda>c. dot (softmax_vec (masked_row h s xm i))
                          (column c (map (linear_vec (val h)) xm)))
                 [0..<out_features (val h)])
       [0..<length xm]"

text \<open>
  \<open>timed x\<close>: the entries of \<open>x\<close> are \<open>dimB x\<close> matrices of \<open>dimT x\<close> rows. \<open>lift3 c F x\<close>
  applies \<open>F\<close> to every matrix of the batch; the result has rows of width \<open>c\<close>.
\<close>

definition timed :: "'a tensor3 \<Rightarrow> bool" where
  "timed x = (length (data x) = dimB x \<and> (\<forall>m \<in> set (data x). length m = dimT x))"

definition lift3 :: "nat \<Rightarrow> ('a list list \<Rightarrow> 'b list list) \<Rightarrow> 'a tensor3 \<Rightarrow> 'b tensor3" where
  "lift3 c F x = \<lparr>dimB = dimB x, dimT = dimT x, dimC = c, data = map F (data x)\<rparr>"

text \<open>
  One sequence of the batch in the concatenated heads, the attention, the feed-forward
  network and a block.
\<close>

definition mha_cat :: "head list \<Rightarrow> real \<Rightarrow> mat \<Rightarrow> mat" where
  "mha_cat hs s xm = map (\<lambda>i. concat (map (\<lambda>h. head_mat h s xm ! i) hs)) [0..<length xm]"

definition mha_mat :: "multi_head_attention \<Rightarrow> real \<Rightarrow> mat \<Rightarrow> mat" where
  "mha_mat a s xm = map (linear_vec (proj a)) (mha_cat (heads a) s xm)"

definition ff_mat :: "feed_forward \<Rightarrow> mat \<Rightarrow> mat" where
  "ff_mat f xm = map (\<lambda>r. linear_vec (net_2 f) (map GELU (linear_vec (net_0 f) r))) xm"

definition block_mat :: "block \<Rightarrow> real \<Rightarrow> mat \<Rightarrow> mat" where
  "block_mat b s xm =
     (let x1 = map2 (map2 (+)) xm (mha_mat (sa b) s (map (layer_norm_vec (ln1 b)) xm))
      in map2 (map2 (+)) x1 (ff_mat (ffwd b) (map (layer_norm_vec (ln2 b)) x1)))"

definition scale_of :: "config \<Rightarrow> real" where
  "scale_of c = real (n_embd c) powr (- (1 / 2))"

text \<open>
  One sequence of tokens in the model: the sum of the embeddings of its tokens and
  positions, and the logits. \<open>logits_of\<close> is the tensor of the logits of a batch, and
  \<open>forward_logits\<close> the part of \<^verbatim>\<open>forward\<close> that computes it (lines 101 to 106).
\<close>

definition embed_mat :: "bigram_language_model \<Rightarrow> nat list \<Rightarrow> mat" where
  "embed_mat m toks =
     map2 (map2 (+)) (map (\<lambda>i. emb_weight (token_embedding_table m) ! i) toks)
       (map (\<lambda>i. emb_weight (position_embedding_table m) ! i) [0..<length toks])"

definition model_mat :: "bigram_language_model \<Rightarrow> nat list \<Rightarrow> mat" where
  "model_mat m toks =
     map (\<lambda>r. linear_vec (lm_head m) (layer_norm_vec (ln_f m) r))
       (fold (\<lambda>b. block_mat b (scale_of (model_config m))) (blocks m) (embed_mat m toks))"

definition logits_of :: "bigram_language_model \<Rightarrow> nat tensor2 \<Rightarrow> real tensor3" where
  "logits_of m idx =
     \<lparr>dimB = rows2 idx, dimT = cols2 idx, dimC = vocab_size (model_config m),
      data = map (model_mat m) (data2 idx)\<rparr>"

definition forward_logits :: "bigram_language_model \<Rightarrow> nat tensor2 \<Rightarrow> error + real tensor3" where
  "forward_logits m idx =
     and_then (Embedding_forward (token_embedding_table m) idx) (\<lambda>tok_emb.
      and_then (Embedding_forward1 (position_embedding_table m) (arange (cols2 idx))) (\<lambda>pos_emb.
      and_then (add_broadcast tok_emb pos_emb) (\<lambda>x.
      and_then (Sequential_forward (blocks m) x) (\<lambda>x.
      and_then (LayerNorm_forward (ln_f m) x) (\<lambda>x.
      Linear_forward (lm_head m) x)))))"

text \<open>
  A function on sequences is causal when it keeps the length and the first \<open>n\<close> elements of
  its result are its result on the first \<open>n\<close> elements of its argument.
\<close>

definition causal :: "('a list \<Rightarrow> 'b list) \<Rightarrow> bool" where
  "causal F = (\<forall>xm n. n \<le> length xm \<longrightarrow> length (F xm) = length xm \<and> take n (F xm) = F (take n xm))"

text \<open>The dropout probabilities that \<^verbatim>\<open>nn.Dropout\<close> accepts.\<close>

definition dropout_ok :: "config \<Rightarrow> bool" where
  "dropout_ok c = (0 \<le> dropout c \<and> dropout c \<le> 1)"

text \<open>
  A small model, built by the constructor from parameters that are all 0, and batches of
  tokens for it.
\<close>

definition example_config :: config where
  "example_config =
     \<lparr>vocab_size = 2, n_embd = 2, n_head = 2, n_layer = 1, block_size = 2, dropout = 0\<rparr>"

definition example_model :: bigram_language_model where
  "example_model = fst (projr (BigramLanguageModel_init (\<lambda>i. 0) example_config 0))"

definition example_idx :: "nat tensor2" where
  "example_idx = \<lparr>rows2 = 1, cols2 = 2, data2 = [[0, 1]]\<rparr>"

definition example_idx' :: "nat tensor2" where
  "example_idx' = \<lparr>rows2 = 1, cols2 = 2, data2 = [[0, 0]]\<rparr>"

definition example_head :: head where
  "example_head = fst (projr (Head_init (\<lambda>i. 0) 1 example_config 0))"

definition example_x :: "real tensor3" where
  "example_x = \<lparr>dimB = 1, dimT = 1, dimC = 2, data = [[[0, 0]]]\<rparr>"

definition example_block :: block where
  "example_block = hd (blocks example_model)"

definition example_targets :: "nat tensor2" where
  "example_targets = \<lparr>rows2 = 1, cols2 = 2, data2 = [[1, 0]]\<rparr>"

text \<open>
  What \<^verbatim>\<open>torch.multinomial\<close> guarantees of a draw: the index drawn is an index of the row of
  probabilities.
\<close>

definition sampler_ok :: "'s sampler \<Rightarrow> bool" where
  "sampler_ok draw = (\<forall>s p. p \<noteq> [] \<longrightarrow> fst (draw s p) < length p)"

definition example_draw :: "nat sampler" where
  "example_draw s p = (s mod length p, Suc s)"

definition example_long :: "nat tensor2" where
  "example_long = \<lparr>rows2 = 1, cols2 = 3, data2 = [[0, 1, 0]]\<rparr>"


text \<open>A configuration whose \<open>n_head\<close> does not divide \<open>n_embd\<close>.\<close>

definition odd_config :: config where
  "odd_config =
     \<lparr>vocab_size = 2, n_embd = 3, n_head = 2, n_layer = 1, block_size = 2, dropout = 0\<rparr>"

section \<open>Properties\<close>

lemma and_then_Inr [simp]: "and_then (Inr v) f = f v"
  by (simp add: and_then_def)

lemma and_then_Inl [simp]: "and_then (Inl e) f = Inl e"
  by (simp add: and_then_def)

lemma and_then_eq_Inr: "and_then r f = Inr y \<longleftrightarrow> (\<exists>v. r = Inr v \<and> f v = Inr y)"
  by (cases r) simp_all

lemma wf3_iff:
  "wf3 x \<longleftrightarrow> length (data x) = dimB x \<and>
     (\<forall>m \<in> set (data x). length m = dimT x \<and> (\<forall>r \<in> set m. length r = dimC x))"
  by (auto simp: wf3_def list_all_iff)

lemma wf2_iff:
  "wf2 x \<longleftrightarrow> length (data2 x) = rows2 x \<and> (\<forall>r \<in> set (data2 x). length r = cols2 x)"
  by (auto simp: wf2_def list_all_iff)

lemma length_linear_vec: "wf_linear l \<Longrightarrow> length (linear_vec l v) = out_features l"
  by (auto simp: wf_linear_def linear_vec_def split: option.splits)

lemma Linear_forward_ok:
  "dimC x = in_features l \<Longrightarrow>
   Linear_forward l x = Inr (x\<lparr>dimC := out_features l, data := map (map (linear_vec l)) (data x)\<rparr>)"
  by (simp add: Linear_forward_def)

lemma wf3_Linear:
  "wf_linear l \<Longrightarrow> wf3 x \<Longrightarrow>
   wf3 (x\<lparr>dimC := out_features l, data := map (map (linear_vec l)) (data x)\<rparr>)"
  by (auto simp: wf3_iff length_linear_vec)

lemma length_layer_norm_vec:
  "wf_layer_norm g \<Longrightarrow> length v = normalized_shape g \<Longrightarrow> length (layer_norm_vec g v) = length v"
  by (simp add: wf_layer_norm_def layer_norm_vec_def)

lemma LayerNorm_forward_ok:
  "dimC x = normalized_shape g \<Longrightarrow>
   LayerNorm_forward g x = Inr (x\<lparr>data := map (map (layer_norm_vec g)) (data x)\<rparr>)"
  by (simp add: LayerNorm_forward_def)

lemma wf3_LayerNorm:
  "wf_layer_norm g \<Longrightarrow> dimC x = normalized_shape g \<Longrightarrow> wf3 x \<Longrightarrow>
   wf3 (x\<lparr>data := map (map (layer_norm_vec g)) (data x)\<rparr>)"
  by (auto simp: wf3_iff length_layer_norm_vec)

lemma wf3_timed: "wf3 x \<Longrightarrow> timed x"
  by (simp add: wf3_iff timed_def)

lemma lift3_simps [simp]:
  "dimB (lift3 c F x) = dimB x" "dimT (lift3 c F x) = dimT x" "dimC (lift3 c F x) = c"
  "data (lift3 c F x) = map F (data x)"
  by (simp_all add: lift3_def)

lemma timed_lift3:
  "timed x \<Longrightarrow> (\<And>m. m \<in> set (data x) \<Longrightarrow> length (F m) = length m) \<Longrightarrow> timed (lift3 c F x)"
  by (simp add: timed_def)

lemma lift3_lift3: "lift3 c G (lift3 d F x) = lift3 c (G \<circ> F) x"
  by (simp add: lift3_def)

lemma lift3_cong:
  "(\<And>m. m \<in> set (data x) \<Longrightarrow> F m = G m) \<Longrightarrow> lift3 c F x = lift3 c G x"
  by (simp add: lift3_def)

lemma map2_same: "map2 f (map g xs) (map h xs) = map (\<lambda>x. f (g x) (h x)) xs"
  by (induction xs) simp_all

lemma column_transposed:
  assumes "j < length k" "length (k ! j) = n"
  shows "column j (map (\<lambda>c. column c k) [0..<n]) = k ! j"
  using assms by (auto simp: column_def list_eq_iff_nth_eq)

lemma matmul_mat_transposed:
  assumes "\<forall>r \<in> set k. length r = n" "length k = T"
  shows "matmul_mat T q (map (\<lambda>c. column c k) [0..<n]) =
         map (\<lambda>u. map (\<lambda>j. dot u (k ! j)) [0..<T]) q"
  using assms by (simp add: matmul_mat_def column_transposed)

lemma map_by_index: "map f xs = map (\<lambda>i. f (xs ! i)) [0..<length xs]"
  by (rule nth_equalityI) simp_all

lemma Head_affinities_closed:
  assumes "shaped (dimC x) hs False (key h)" "shaped (dimC x) hs False (query h)"
    and "timed x" "0 < dimC x"
  shows "Head_affinities h x = Inr (lift3 (dimT x) (aff_mat h (real (dimC x) powr (- (1 / 2)))) x)"
proof -
  let ?s = "real (dimC x) powr (- (1 / 2))"
  have k: "Linear_forward (key h) x =
      Inr (x\<lparr>dimC := hs, data := map (map (linear_vec (key h))) (data x)\<rparr>)"
    using assms(1) by (simp add: shaped_def Linear_forward_def)
  have q: "Linear_forward (query h) x =
      Inr (x\<lparr>dimC := hs, data := map (map (linear_vec (query h))) (data x)\<rparr>)"
    using assms(2) by (simp add: shaped_def Linear_forward_def)
  have per: "matmul_mat (dimT x) (map (linear_vec (query h)) xm)
        (map (\<lambda>c. column c (map (linear_vec (key h)) xm)) [0..<hs]) =
      map (\<lambda>i. map (\<lambda>j. dot (linear_vec (query h) (xm ! i)) (linear_vec (key h) (xm ! j))) [0..<length xm]) [0..<length xm]"
    if "xm \<in> set (data x)" for xm
  proof -
    have len: "length xm = dimT x" using that assms(3) by (simp add: timed_def)
    have "\<forall>r \<in> set (map (linear_vec (key h)) xm). length r = hs"
      using assms(1) by (auto simp: shaped_def length_linear_vec)
    then have "matmul_mat (dimT x) (map (linear_vec (query h)) xm)
        (map (\<lambda>c. column c (map (linear_vec (key h)) xm)) [0..<hs]) =
       map (\<lambda>u. map (\<lambda>j. dot u (map (linear_vec (key h)) xm ! j)) [0..<dimT x]) (map (linear_vec (query h)) xm)"
      by (intro matmul_mat_transposed) (simp_all add: len)
    also have "\<dots> = map (\<lambda>i. map (\<lambda>j. dot (linear_vec (query h) (xm ! i)) (linear_vec (key h) (xm ! j))) [0..<length xm]) [0..<length xm]"
      by (rule nth_equalityI) (simp_all add: len)
    finally show ?thesis .
  qed
  have "Head_affinities h x =
     Inr (scale \<lparr>dimB = dimB x, dimT = dimT x, dimC = dimT x,
          data = map2 (matmul_mat (dimT x)) (map (map (linear_vec (query h))) (data x))
             (map (\<lambda>m. map (\<lambda>c. column c m) [0..<hs]) (map (map (linear_vec (key h))) (data x)))\<rparr> ?s)"
    using assms(4) by (simp add: Head_affinities_def k q matmul_def transpose_last_def pow_neg_half_def)
  also have "map2 (matmul_mat (dimT x)) (map (map (linear_vec (query h))) (data x))
             (map (\<lambda>m. map (\<lambda>c. column c m) [0..<hs]) (map (map (linear_vec (key h))) (data x))) =
      map (\<lambda>xm. map (\<lambda>i. map (\<lambda>j. dot (linear_vec (query h) (xm ! i)) (linear_vec (key h) (xm ! j))) [0..<length xm]) [0..<length xm]) (data x)"
    using per by (simp add: map2_same[where g = "map (linear_vec (query h))" and h = "\<lambda>xm. map (\<lambda>c. column c (map (linear_vec (key h)) xm)) [0..<hs]", simplified] o_def cong: map_cong)
  finally show ?thesis
    by (simp add: scale_def aff_mat_def aff_def o_def lift3_def)
qed

lemma causal_mask:
  assumes "T \<le> n"
  shows "eq_zero (slice2 T T (tril_ones n)) =
     \<lparr>rows2 = T, cols2 = T, data2 = map (\<lambda>i. map (\<lambda>j. i < j) [0..<T]) [0..<T]\<rparr>"
proof -
  have "take T [0..<n] = [0..<T]" using assms by (simp add: take_upt)
  then show ?thesis
    using assms by (simp add: eq_zero_def slice2_def tril_ones_def take_map min_def o_def not_le)
qed

lemma broadcast2_same: "rows2 m = r \<Longrightarrow> cols2 m = c \<Longrightarrow> broadcast2 r c m = Inr (data2 m)"
  by (simp add: broadcast2_def)

lemma masked_mat:
  "map2 (map2 (\<lambda>fill v. if fill then None else Some v))
      (map (\<lambda>i. map (\<lambda>j. i < j) [0..<length xm]) [0..<length xm]) (aff_mat h s xm) =
   map (masked_row h s xm) [0..<length xm]"
  by (simp add: aff_mat_def masked_row_def map2_same)

lemma masked_row_not_fully: "i < length xm \<Longrightarrow> \<not> fully_masked (masked_row h s xm i)"
proof
  assume i: "i < length xm" and f: "fully_masked (masked_row h s xm i)"
  have "masked_row h s xm i ! i \<in> set (masked_row h s xm i)"
    using i by (intro nth_mem) (simp add: masked_row_def)
  then have "masked_row h s xm i ! i = None"
    using f by (simp add: fully_masked_def list_all_iff)
  then show False using i by (simp add: masked_row_def)
qed

lemma Head_forward_closed:
  assumes "wf_head c hs h" "timed x" "dimC x = n_embd c" "0 < n_embd c" "dimT x \<le> block_size c"
  shows "Head_forward h x = Inr (lift3 hs (head_mat h (real (n_embd c) powr (- (1 / 2)))) x)"
proof -
  let ?s = "real (n_embd c) powr (- (1 / 2))"
  have len: "length xm = dimT x" if "xm \<in> set (data x)" for xm
    using that assms(2) by (simp add: timed_def)
  have a: "Head_affinities h x =
     Inr \<lparr>dimB = dimB x, dimT = dimT x, dimC = dimT x, data = map (aff_mat h ?s) (data x)\<rparr>"
    using Head_affinities_closed[of x hs h] assms by (simp add: wf_head_def lift3_def)
  have mk: "eq_zero (slice2 (dimT x) (dimT x) (tril h)) =
     \<lparr>rows2 = dimT x, cols2 = dimT x, data2 = map (\<lambda>i. map (\<lambda>j. i < j) [0..<dimT x]) [0..<dimT x]\<rparr>"
    using assms(1,5) by (simp add: wf_head_def causal_mask)
  have m: "masked_fill \<lparr>dimB = dimB x, dimT = dimT x, dimC = dimT x, data = map (aff_mat h ?s) (data x)\<rparr>
        (eq_zero (slice2 (dimT x) (dimT x) (tril h))) =
     Inr \<lparr>dimB = dimB x, dimT = dimT x, dimC = dimT x,
          data = map (\<lambda>xm. map (masked_row h ?s xm) [0..<length xm]) (data x)\<rparr>"
  proof -
    have per: "map2 (map2 (\<lambda>fill v. if fill then None else Some v))
        (map (\<lambda>i. map (\<lambda>j. i < j) [0..<dimT x]) [0..<dimT x]) (aff_mat h ?s xm) =
        map (masked_row h ?s xm) [0..<length xm]" if "xm \<in> set (data x)" for xm
      using masked_mat[of xm h ?s] len[OF that] by simp
    show ?thesis
      by (simp add: masked_fill_def mk broadcast2_same o_def per cong: map_cong)
  qed
  have nf: "\<not> list_ex (list_ex fully_masked) (map (\<lambda>xm. map (masked_row h ?s xm) [0..<length xm]) (data x))"
    by (auto simp: list_ex_iff masked_row_not_fully)
  have sm: "softmax \<lparr>dimB = dimB x, dimT = dimT x, dimC = dimT x,
          data = map (\<lambda>xm. map (masked_row h ?s xm) [0..<length xm]) (data x)\<rparr> =
     Inr \<lparr>dimB = dimB x, dimT = dimT x, dimC = dimT x,
          data = map (\<lambda>xm. map (\<lambda>i. softmax_vec (masked_row h ?s xm i)) [0..<length xm]) (data x)\<rparr>"
    using nf by (simp add: softmax_def o_def)
  have v: "Linear_forward (val h) x =
      Inr (x\<lparr>dimC := hs, data := map (map (linear_vec (val h))) (data x)\<rparr>)"
    using assms(1,3) by (simp add: wf_head_def shaped_def Linear_forward_def)
  have hs: "out_features (val h) = hs" using assms(1) by (simp add: wf_head_def shaped_def)
  show ?thesis
    by (simp add: Head_forward_def a m sm v Dropout_forward_def matmul_def map2_same
        head_mat_def matmul_mat_def hs o_def lift3_def)
qed

lemma length_head_mat [simp]: "length (head_mat h s xm) = length xm"
  by (simp add: head_mat_def)

lemma length_mha_cat [simp]: "length (mha_cat hs s xm) = length xm"
  by (simp add: mha_cat_def)

lemma length_mha_mat [simp]: "length (mha_mat a s xm) = length xm"
  by (simp add: mha_mat_def)

lemma length_ff_mat [simp]: "length (ff_mat f xm) = length xm"
  by (simp add: ff_mat_def)

lemma length_block_mat [simp]: "length (block_mat b s xm) = length xm"
  by (simp add: block_mat_def Let_def)

lemma collect_map_Inr: "collect (map (\<lambda>h. Inr (f h)) hs) = Inr (map f hs)"
  by (induction hs) simp_all

lemma collect_heads:
  assumes "\<forall>h \<in> set hs. Head_forward h x = Inr (f h)"
  shows "collect (map (\<lambda>h. Head_forward h x) hs) = Inr (map f hs)"
  using assms by (induction hs) simp_all

lemma cat_last_lift3:
  assumes "hs \<noteq> []" "\<forall>m \<in> set (data x). length m = dimT x"
  shows "cat_last (map (\<lambda>h. lift3 d (head_mat h s) x) hs) =
         Inr (lift3 (length hs * d) (mha_cat hs s) x)"
  using assms(1)
proof (induction hs rule: list_nonempty_induct)
  case (single h)
  have "head_mat h s m = mha_cat [h] s m" for m
    by (rule nth_equalityI) (simp_all add: mha_cat_def)
  then show ?case by (simp add: lift3_def)
next
  case (cons h hs)
  obtain h' hs' where hs: "hs = h' # hs'" using cons(1) by (cases hs) auto
  have step: "map2 (@) (head_mat h s m) (mha_cat hs s m) = mha_cat (h # hs) s m" for m
    by (rule nth_equalityI) (simp_all add: mha_cat_def)
  have "cat_last (map (\<lambda>h. lift3 d (head_mat h s) x) (h # hs)) =
     and_then (cat_last (map (\<lambda>h. lift3 d (head_mat h s) x) hs)) (\<lambda>y.
       if dimB (lift3 d (head_mat h s) x) \<noteq> dimB y \<or> dimT (lift3 d (head_mat h s) x) \<noteq> dimT y then Inl ShapeError
       else Inr \<lparr>dimB = dimB (lift3 d (head_mat h s) x), dimT = dimT (lift3 d (head_mat h s) x),
                 dimC = dimC (lift3 d (head_mat h s) x) + dimC y,
                 data = map2 (map2 (@)) (data (lift3 d (head_mat h s) x)) (data y)\<rparr>)"
    by (simp add: hs)
  then have "cat_last (map (\<lambda>h. lift3 d (head_mat h s) x) (h # hs)) =
     Inr \<lparr>dimB = dimB x, dimT = dimT x, dimC = d + length hs * d,
                 data = map2 (map2 (@)) (map (head_mat h s) (data x)) (map (mha_cat hs s) (data x))\<rparr>"
    by (simp only: cons.IH and_then_Inr lift3_simps) simp
  then show ?case
    by (simp add: map2_same step lift3_def)
qed

lemma update_as_lift3:
  "x\<lparr>dimC := c, data := map F (data x)\<rparr> = lift3 c F x"
  "x\<lparr>data := map F (data x)\<rparr> = lift3 (dimC x) F x"
  by (simp_all add: lift3_def)

lemma Linear_forward_lift3:
  "dimC x = in_features l \<Longrightarrow> Linear_forward l x = Inr (lift3 (out_features l) (map (linear_vec l)) x)"
  by (simp add: Linear_forward_def lift3_def)

lemma LayerNorm_forward_lift3:
  "dimC x = normalized_shape g \<Longrightarrow> LayerNorm_forward g x = Inr (lift3 (dimC x) (map (layer_norm_vec g)) x)"
  by (simp add: LayerNorm_forward_def lift3_def)

lemma add3_lift3:
  "add3 x (lift3 (dimC x) F x) = Inr (lift3 (dimC x) (\<lambda>m. map2 (map2 (+)) m (F m)) x)"
  using map2_same[of "map2 (map2 (+))" "\<lambda>m. m" "data x" F]
  by (simp add: add3_def lift3_def)

lemma MultiHeadAttention_forward_closed:
  assumes "wf_multi_head_attention c a" "0 < n_head c"
    and "n_head c * (n_embd c div n_head c) = n_embd c"
    and "timed x" "dimC x = n_embd c" "0 < n_embd c" "dimT x \<le> block_size c"
  shows "MultiHeadAttention_forward a x = Inr (lift3 (n_embd c) (mha_mat a (scale_of c)) x)"
proof -
  let ?hs = "n_embd c div n_head c"
  have hd: "\<forall>h \<in> set (heads a). Head_forward h x = Inr (lift3 ?hs (head_mat h (scale_of c)) x)"
    using assms by (auto simp: wf_multi_head_attention_def list_all_iff scale_of_def
        intro!: Head_forward_closed)
  have ne: "heads a \<noteq> []" and len: "length (heads a) = n_head c"
    using assms(1,2) by (auto simp: wf_multi_head_attention_def)
  have tm: "\<forall>m \<in> set (data x). length m = dimT x" using assms(4) by (simp add: timed_def)
  have pr: "in_features (proj a) = n_embd c" "out_features (proj a) = n_embd c"
    using assms(1) by (simp_all add: wf_multi_head_attention_def shaped_def)
  show ?thesis
    by (simp add: MultiHeadAttention_forward_def collect_heads[OF hd] cat_last_lift3[OF ne tm]
        len assms(3) Linear_forward_lift3 pr lift3_lift3 Dropout_forward_def mha_mat_def o_def)
qed

lemma FeedForward_forward_closed:
  assumes "wf_feed_forward c f" "dimC x = n_embd c"
  shows "FeedForward_forward f x = Inr (lift3 (n_embd c) (ff_mat f) x)"
proof -
  have s: "in_features (net_0 f) = n_embd c" "out_features (net_0 f) = 4 * n_embd c"
    "in_features (net_2 f) = 4 * n_embd c" "out_features (net_2 f) = n_embd c"
    using assms(1) by (simp_all add: wf_feed_forward_def shaped_def)
  have g: "GELU_forward (lift3 d F y) = lift3 d (map (map GELU) \<circ> F) y" for d F and y :: "real tensor3"
    by (simp add: GELU_forward_def lift3_def)
  show ?thesis
    by (simp add: FeedForward_forward_def Linear_forward_lift3 s assms(2) g lift3_lift3
        Dropout_forward_def ff_mat_def o_def)
qed

lemma Block_forward_closed:
  assumes "wf_block c b" "n_head c * (n_embd c div n_head c) = n_embd c"
    and "timed x" "dimC x = n_embd c" "0 < n_embd c" "dimT x \<le> block_size c"
  shows "Block_forward b x = Inr (lift3 (n_embd c) (block_mat b (scale_of c)) x)"
proof -
  have n: "normalized_shape (ln1 b) = n_embd c" "normalized_shape (ln2 b) = n_embd c"
    using assms(1) by (simp_all add: wf_block_def wf_norm_def)
  let ?n1 = "lift3 (n_embd c) (map (layer_norm_vec (ln1 b))) x"
  have t1: "timed ?n1" using assms(3) by (simp add: timed_lift3)
  have a: "MultiHeadAttention_forward (sa b) ?n1 =
      Inr (lift3 (n_embd c) (mha_mat (sa b) (scale_of c)) ?n1)"
    using assms t1 by (intro MultiHeadAttention_forward_closed) (simp_all add: wf_block_def)
  let ?F1 = "\<lambda>m. map2 (map2 (+)) m (mha_mat (sa b) (scale_of c) (map (layer_norm_vec (ln1 b)) m))"
  let ?x1 = "lift3 (n_embd c) ?F1 x"
  have r1: "add3 x (lift3 (n_embd c) (mha_mat (sa b) (scale_of c)) ?n1) = Inr ?x1"
    using add3_lift3[of x "\<lambda>m. mha_mat (sa b) (scale_of c) (map (layer_norm_vec (ln1 b)) m)"]
    by (simp add: lift3_lift3 assms(4) o_def)
  let ?n2 = "lift3 (n_embd c) (map (layer_norm_vec (ln2 b))) ?x1"
  have f: "FeedForward_forward (ffwd b) ?n2 = Inr (lift3 (n_embd c) (ff_mat (ffwd b)) ?n2)"
    using assms(1) by (intro FeedForward_forward_closed) (simp_all add: wf_block_def)
  have r2: "add3 ?x1 (lift3 (n_embd c) (ff_mat (ffwd b)) ?n2) =
      Inr (lift3 (n_embd c) (block_mat b (scale_of c)) x)"
    using add3_lift3[of ?x1 "\<lambda>m. ff_mat (ffwd b) (map (layer_norm_vec (ln2 b)) m)"]
    by (simp add: lift3_lift3 o_def block_mat_def Let_def)
  show ?thesis
    by (simp add: Block_forward_def LayerNorm_forward_lift3 n assms(4) a r1 f r2)
qed

lemma Sequential_forward_closed:
  assumes "list_all (wf_block c) bs" "n_head c * (n_embd c div n_head c) = n_embd c"
    and "timed x" "dimC x = n_embd c" "0 < n_embd c" "dimT x \<le> block_size c"
  shows "Sequential_forward bs x = Inr (lift3 (n_embd c) (fold (\<lambda>b. block_mat b (scale_of c)) bs) x)"
  using assms(1,3,4,6)
proof (induction bs arbitrary: x)
  case Nil
  then show ?case by (simp add: lift3_def)
next
  case (Cons b bs)
  let ?y = "lift3 (n_embd c) (block_mat b (scale_of c)) x"
  have b: "Block_forward b x = Inr ?y"
    using Cons.prems assms(2,5) by (intro Block_forward_closed) simp_all
  have "Sequential_forward bs ?y = Inr (lift3 (n_embd c) (fold (\<lambda>b. block_mat b (scale_of c)) bs) ?y)"
    using Cons.prems by (intro Cons.IH) (simp_all add: timed_lift3)
  then show ?case by (simp add: b lift3_lift3 o_def)
qed

lemma length_fold_block_mat [simp]: "length (fold (\<lambda>b. block_mat b s) bs xm) = length xm"
  by (induction bs arbitrary: xm) simp_all

lemma length_embed_mat [simp]: "length (embed_mat m toks) = length toks"
  by (simp add: embed_mat_def)

lemma length_model_mat [simp]: "length (model_mat m toks) = length toks"
  by (simp add: model_mat_def)

lemma valid_config_heads: "valid_config c \<Longrightarrow> n_head c * (n_embd c div n_head c) = n_embd c"
  by (auto simp: valid_config_def)

lemma and_then_assoc: "and_then (and_then r f) g = and_then r (\<lambda>v. and_then (f v) g)"
  by (cases r) simp_all

lemma forward_via_logits:
  "BigramLanguageModel_forward m idx targets =
     and_then (forward_logits m idx) (\<lambda>logits.
      case targets of
        None \<Rightarrow> Inr (Logits3 logits, Absent)
      | Some targets \<Rightarrow>
           and_then (view2 (dimB logits * dimT logits) (dimC logits) logits) (\<lambda>l2.
           and_then (view1 (dimB logits * dimT logits) targets) (\<lambda>tg.
           and_then (cross_entropy l2 tg) (\<lambda>loss.
           Inr (Logits2 l2, loss)))))"
  by (cases targets) (simp_all add: BigramLanguageModel_forward_def forward_logits_def and_then_assoc Let_def)

lemma logits3_closed:
  assumes "wf_model m" "valid_config (model_config m)" "tokens_ok m idx"
    and "cols2 idx \<le> block_size (model_config m)"
  shows "forward_logits m idx = Inr (logits_of m idx)"
proof -
  let ?c = "model_config m"
  have w: "num_embeddings (token_embedding_table m) = vocab_size ?c"
    "embedding_dim (token_embedding_table m) = n_embd ?c"
    "num_embeddings (position_embedding_table m) = block_size ?c"
    "embedding_dim (position_embedding_table m) = n_embd ?c"
    "list_all (wf_block ?c) (blocks m)"
    "normalized_shape (ln_f m) = n_embd ?c"
    "in_features (lm_head m) = n_embd ?c" "out_features (lm_head m) = vocab_size ?c"
    using assms(1) by (simp_all add: wf_model_def Let_def wf_norm_def shaped_def)
  have len: "length r = cols2 idx" if "r \<in> set (data2 idx)" for r
    using assms(3) that by (simp add: tokens_ok_def wf2_iff)
  have rows: "length (data2 idx) = rows2 idx"
    using assms(3) by (simp add: tokens_ok_def wf2_iff)
  have te: "Embedding_forward (token_embedding_table m) idx =
     Inr \<lparr>dimB = rows2 idx, dimT = cols2 idx, dimC = n_embd ?c,
          data = map (map (\<lambda>i. emb_weight (token_embedding_table m) ! i)) (data2 idx)\<rparr>"
    using assms(3) by (simp add: Embedding_forward_def tokens_ok_def w)
  have pe: "Embedding_forward1 (position_embedding_table m) (arange (cols2 idx)) =
     Inr \<lparr>rows2 = cols2 idx, cols2 = n_embd ?c,
          data2 = map (\<lambda>i. emb_weight (position_embedding_table m) ! i) [0..<cols2 idx]\<rparr>"
    using assms(4) by (simp add: Embedding_forward1_def arange_def w list_all_iff)
  let ?x = "\<lparr>dimB = rows2 idx, dimT = cols2 idx, dimC = n_embd ?c,
             data = map (embed_mat m) (data2 idx)\<rparr> :: real tensor3"
  have ab: "add_broadcast \<lparr>dimB = rows2 idx, dimT = cols2 idx, dimC = n_embd ?c,
          data = map (map (\<lambda>i. emb_weight (token_embedding_table m) ! i)) (data2 idx)\<rparr>
        \<lparr>rows2 = cols2 idx, cols2 = n_embd ?c,
          data2 = map (\<lambda>i. emb_weight (position_embedding_table m) ! i) [0..<cols2 idx]\<rparr> = Inr ?x"
    by (simp add: add_broadcast_def embed_mat_def len o_def cong: map_cong)
  have tx: "timed ?x" by (simp add: timed_def rows len)
  have sq: "Sequential_forward (blocks m) ?x =
      Inr (lift3 (n_embd ?c) (fold (\<lambda>b. block_mat b (scale_of ?c)) (blocks m)) ?x)"
    using assms(2,4) w(5) tx
    by (intro Sequential_forward_closed) (simp_all add: valid_config_heads valid_config_def)
  show ?thesis
    by (simp add: forward_logits_def te pe ab sq LayerNorm_forward_lift3 Linear_forward_lift3 w lift3_lift3)
       (simp add: lift3_def logits_of_def model_mat_def o_def)
qed

lemma forward_None_closed:
  assumes "wf_model m" "valid_config (model_config m)" "tokens_ok m idx"
    and "cols2 idx \<le> block_size (model_config m)"
  shows "BigramLanguageModel_forward m idx None = Inr (Logits3 (logits_of m idx), Absent)"
  by (simp add: forward_via_logits logits3_closed[OF assms])

lemma wf3_logits_of:
  assumes "wf_model m" "tokens_ok m idx"
  shows "wf3 (logits_of m idx)"
proof -
  have "wf_linear (lm_head m)" "out_features (lm_head m) = vocab_size (model_config m)"
    using assms(1) by (simp_all add: wf_model_def Let_def shaped_def)
  then show ?thesis
    using assms(2)
    by (auto simp: wf3_iff logits_of_def tokens_ok_def wf2_iff model_mat_def length_linear_vec)
qed

lemma causalI:
  "(\<And>xm. length (F xm) = length xm) \<Longrightarrow>
   (\<And>xm n. n \<le> length xm \<Longrightarrow> take n (F xm) = F (take n xm)) \<Longrightarrow> causal F"
  by (simp add: causal_def)

lemma causal_take: "causal F \<Longrightarrow> n \<le> length xm \<Longrightarrow> take n (F xm) = F (take n xm)"
  by (simp add: causal_def)

lemma causal_length: "causal F \<Longrightarrow> length (F xm) = length xm"
  by (auto simp: causal_def)

lemma causal_map: "causal (map f)"
  by (simp add: causal_def take_map)

lemma causal_comp: "causal F \<Longrightarrow> causal G \<Longrightarrow> causal (\<lambda>xm. G (F xm))"
  by (simp add: causal_def)

lemma causal_residual: "causal F \<Longrightarrow> causal (\<lambda>xm. map2 (map2 (+)) xm (F xm))"
  by (simp add: causal_def take_map take_zip)

lemma sum_list_expo_pad: "sum_list (map expo (r @ replicate k None)) = sum_list (map expo r)"
  by (simp add: expo_def sum_list_replicate)

lemma softmax_vec_pad: "softmax_vec (r @ replicate k None) = softmax_vec r @ replicate k 0"
  using sum_list_expo_pad[of r k] by (simp add: softmax_vec_def expo_def)

lemma dot_zeros: "dot (replicate k 0) v = 0"
proof (induction k arbitrary: v)
  case 0
  then show ?case by (simp add: dot_def)
next
  case (Suc k)
  then show ?case by (cases v) (simp_all add: dot_def)
qed

lemma dot_append: "dot (u @ w) v = dot u (take (length u) v) + dot w (drop (length u) v)"
  by (simp add: dot_def zip_append1)

lemma dot_pad: "dot (w @ replicate k 0) v = dot w (take (length w) v)"
  by (simp add: dot_append dot_zeros)

lemma aff_take: "i < n \<Longrightarrow> j < n \<Longrightarrow> aff h s (take n xm) i j = aff h s xm i j"
  by (simp add: aff_def)

lemma masked_row_take:
  assumes "i < n" "n \<le> length xm"
  shows "masked_row h s xm i = masked_row h s (take n xm) i @ replicate (length xm - n) None"
proof -
  let ?g = "\<lambda>j. if i < j then None else Some (aff h s xm i j)"
  have "[0..<length xm] = [0..<n] @ [n..<length xm]"
    using assms(2) by (metis le_add_diff_inverse upt_add_eq_append zero_le)
  then have "masked_row h s xm i = map ?g [0..<n] @ map ?g [n..<length xm]"
    by (simp add: masked_row_def)
  moreover have "map ?g [n..<length xm] = replicate (length xm - n) None"
    using assms(1) by (intro nth_equalityI) simp_all
  moreover have "map ?g [0..<n] = masked_row h s (take n xm) i"
    using assms by (simp add: masked_row_def aff_take min_def)
  ultimately show ?thesis by simp
qed

lemma length_masked_row [simp]: "length (masked_row h s xm i) = length xm"
  by (simp add: masked_row_def)

lemma length_softmax_vec [simp]: "length (softmax_vec r) = length r"
  by (simp add: softmax_vec_def)

lemma head_entry_take:
  assumes "i < n" "n \<le> length xm"
  shows "dot (softmax_vec (masked_row h s xm i)) (column c (map (linear_vec (val h)) xm)) =
        dot (softmax_vec (masked_row h s (take n xm) i)) (column c (map (linear_vec (val h)) (take n xm)))"
proof -
  let ?R = "masked_row h s (take n xm) i"
  let ?V = "column c (map (linear_vec (val h)) xm)"
  have len: "length (softmax_vec ?R) = n" using assms(2) by simp
  have "softmax_vec (masked_row h s xm i) = softmax_vec ?R @ replicate (length xm - n) 0"
    by (subst masked_row_take[OF assms]) (rule softmax_vec_pad)
  then have "dot (softmax_vec (masked_row h s xm i)) ?V = dot (softmax_vec ?R) (take n ?V)"
    using dot_pad[of "softmax_vec ?R" "length xm - n" ?V] by (simp only: len)
  moreover have "take n ?V = column c (map (linear_vec (val h)) (take n xm))"
    by (simp only: column_def take_map)
  ultimately show ?thesis by simp
qed

lemma head_mat_nth:
  "i < length xm \<Longrightarrow> head_mat h s xm ! i =
     map (\<lambda>c. dot (softmax_vec (masked_row h s xm i)) (column c (map (linear_vec (val h)) xm)))
       [0..<out_features (val h)]"
  by (simp add: head_mat_def)

lemma causal_head_mat: "causal (head_mat h s)"
proof (rule causalI)
  fix xm :: mat and n
  assume n: "n \<le> length xm"
  show "take n (head_mat h s xm) = head_mat h s (take n xm)"
  proof (rule nth_equalityI)
    show "length (take n (head_mat h s xm)) = length (head_mat h s (take n xm))"
      using n by simp
  next
    fix i assume "i < length (take n (head_mat h s xm))"
    then have i: "i < n" by simp
    have "take n (head_mat h s xm) ! i = head_mat h s xm ! i" using i by simp
    also have "\<dots> = map (\<lambda>c. dot (softmax_vec (masked_row h s xm i)) (column c (map (linear_vec (val h)) xm)))
       [0..<out_features (val h)]"
      using i n by (intro head_mat_nth) simp
    also have "\<dots> = map (\<lambda>c. dot (softmax_vec (masked_row h s (take n xm) i))
           (column c (map (linear_vec (val h)) (take n xm)))) [0..<out_features (val h)]"
      by (simp only: head_entry_take[OF i n])
    also have "\<dots> = head_mat h s (take n xm) ! i"
      using i n by (intro head_mat_nth[symmetric]) simp
    finally show "take n (head_mat h s xm) ! i = head_mat h s (take n xm) ! i" .
  qed
qed simp

lemma causal_mha_cat: "causal (mha_cat hs s)"
proof (rule causalI)
  fix xm :: mat and n
  assume n: "n \<le> length xm"
  have eq: "head_mat h s (take n xm) ! i = head_mat h s xm ! i" if "i < n" for h i
  proof -
    have "head_mat h s (take n xm) ! i = take n (head_mat h s xm) ! i"
      by (simp only: causal_take[OF causal_head_mat n])
    then show ?thesis using that by simp
  qed
  show "take n (mha_cat hs s xm) = mha_cat hs s (take n xm)"
  proof (rule nth_equalityI)
    show "length (take n (mha_cat hs s xm)) = length (mha_cat hs s (take n xm))"
      using n by simp
  next
    fix i assume "i < length (take n (mha_cat hs s xm))"
    then have i: "i < n" by simp
    then have "take n (mha_cat hs s xm) ! i = concat (map (\<lambda>h. head_mat h s xm ! i) hs)"
      using n by (simp add: mha_cat_def)
    also have "\<dots> = concat (map (\<lambda>h. head_mat h s (take n xm) ! i) hs)"
      by (simp only: eq[OF i])
    also have "\<dots> = mha_cat hs s (take n xm) ! i"
      using i n by (simp add: mha_cat_def)
    finally show "take n (mha_cat hs s xm) ! i = mha_cat hs s (take n xm) ! i" .
  qed
qed simp

lemma causal_mha_mat: "causal (mha_mat a s)"
proof -
  have "mha_mat a s = (\<lambda>xm. map (linear_vec (proj a)) (mha_cat (heads a) s xm))"
    by (rule ext) (simp add: mha_mat_def)
  then show ?thesis
    using causal_comp[OF causal_mha_cat[of "heads a" s] causal_map[of "linear_vec (proj a)"]]
    by simp
qed

lemma causal_ff_mat: "causal (ff_mat f)"
proof -
  have "ff_mat f = map (\<lambda>r. linear_vec (net_2 f) (map GELU (linear_vec (net_0 f) r)))"
    by (rule ext) (simp add: ff_mat_def)
  then show ?thesis by (simp only: causal_map)
qed

lemma causal_block_mat: "causal (block_mat b s)"
proof -
  let ?A = "\<lambda>xm. mha_mat (sa b) s (map (layer_norm_vec (ln1 b)) xm)"
  let ?F = "\<lambda>xm. ff_mat (ffwd b) (map (layer_norm_vec (ln2 b)) xm)"
  let ?R1 = "\<lambda>xm. map2 (map2 (+)) xm (?A xm)"
  let ?R2 = "\<lambda>xm. map2 (map2 (+)) xm (?F xm)"
  have A: "causal ?A" by (rule causal_comp[OF causal_map causal_mha_mat])
  have F: "causal ?F" by (rule causal_comp[OF causal_map causal_ff_mat])
  have R1: "causal ?R1" by (rule causal_residual[OF A])
  have R2: "causal ?R2" by (rule causal_residual[OF F])
  have "block_mat b s = (\<lambda>xm. ?R2 (?R1 xm))"
    by (rule ext) (simp add: block_mat_def Let_def)
  then show ?thesis using causal_comp[OF R1 R2] by simp
qed

lemma causal_blocks: "causal (fold (\<lambda>b. block_mat b s) bs)"
proof (induction bs)
  case Nil
  show ?case by (rule causalI) simp_all
next
  case (Cons b bs)
  have "fold (\<lambda>b. block_mat b s) (b # bs) = (\<lambda>xm. fold (\<lambda>b. block_mat b s) bs (block_mat b s xm))"
    by (rule ext) simp
  then show ?case
    using causal_comp[OF causal_block_mat[of b s] Cons] by simp
qed

lemma causal_embed_mat: "causal (embed_mat m)"
proof (rule causalI)
  fix toks :: "nat list" and n
  assume "n \<le> length toks"
  then show "take n (embed_mat m toks) = embed_mat m (take n toks)"
    by (simp add: embed_mat_def take_zip take_map min_def)
qed simp

lemma causal_model_mat: "causal (model_mat m)"
proof -
  let ?B = "\<lambda>toks. fold (\<lambda>b. block_mat b (scale_of (model_config m))) (blocks m) (embed_mat m toks)"
  have B: "causal ?B" by (rule causal_comp[OF causal_embed_mat causal_blocks])
  have "model_mat m = (\<lambda>toks. map (\<lambda>r. linear_vec (lm_head m) (layer_norm_vec (ln_f m) r)) (?B toks))"
    by (rule ext) (simp add: model_mat_def)
  then show ?thesis using causal_comp[OF B causal_map] by simp
qed

lemma length_new_matrix: "length (new_matrix src n r c) = r"
  by (simp add: new_matrix_def)

lemma rows_new_matrix: "row \<in> set (new_matrix src n r c) \<Longrightarrow> length row = c"
  by (auto simp: new_matrix_def)

lemma shaped_Linear_init: "shaped fin fout b (fst (Linear_init src fin fout b n))"
  by (auto simp: shaped_def wf_linear_def Linear_init_def length_new_matrix list_all_iff
      rows_new_matrix)

lemma wf_Embedding_init:
  "wf_embedding (fst (Embedding_init src num d n)) \<and>
   num_embeddings (fst (Embedding_init src num d n)) = num \<and>
   embedding_dim (fst (Embedding_init src num d n)) = d"
  by (auto simp: wf_embedding_def Embedding_init_def length_new_matrix list_all_iff rows_new_matrix)

lemma wf_LayerNorm_init: "wf_norm c (LayerNorm_init (n_embd c))"
  by (simp add: wf_norm_def wf_layer_norm_def LayerNorm_init_def)

lemma Dropout_init_ok: "dropout_ok c \<Longrightarrow> Dropout_init (dropout c) = Inr (dropout c)"
  by (simp add: Dropout_init_def dropout_ok_def not_less)

lemma Head_init_ok:
  assumes "dropout_ok c"
  shows "\<exists>h n'. Head_init src hs c n = Inr (h, n') \<and> wf_head c hs h"
proof -
  obtain k n1 where k: "Linear_init src (n_embd c) hs False n = (k, n1)" by (cases "Linear_init src (n_embd c) hs False n")
  obtain q n2 where q: "Linear_init src (n_embd c) hs False n1 = (q, n2)" by (cases "Linear_init src (n_embd c) hs False n1")
  obtain v n3 where v: "Linear_init src (n_embd c) hs False n2 = (v, n3)" by (cases "Linear_init src (n_embd c) hs False n2")
  have "shaped (n_embd c) hs False k" "shaped (n_embd c) hs False q" "shaped (n_embd c) hs False v"
    using shaped_Linear_init[of "n_embd c" hs False src n] shaped_Linear_init[of "n_embd c" hs False src n1]
      shaped_Linear_init[of "n_embd c" hs False src n2] k q v by simp_all
  then show ?thesis
    by (simp add: Head_init_def k q v Dropout_init_ok[OF assms] wf_head_def)
qed

lemma Heads_init_ok:
  assumes "dropout_ok c"
  shows "\<exists>hl n'. Heads_init src hs c k n = Inr (hl, n') \<and> length hl = k \<and> list_all (wf_head c hs) hl"
proof (induction k arbitrary: n)
  case 0
  show ?case by simp
next
  case (Suc k)
  obtain h n1 where h: "Head_init src hs c n = Inr (h, n1)" "wf_head c hs h"
    using Head_init_ok[OF assms] by blast
  obtain hl n2 where hl: "Heads_init src hs c k n1 = Inr (hl, n2)" "length hl = k" "list_all (wf_head c hs) hl"
    using Suc by blast
  show ?case by (simp add: h hl)
qed

lemma MultiHeadAttention_init_ok:
  assumes "dropout_ok c"
  shows "\<exists>a n'. MultiHeadAttention_init src (n_head c) (n_embd c div n_head c) c n = Inr (a, n') \<and>
           wf_multi_head_attention c a"
proof -
  obtain hl n1 where hl: "Heads_init src (n_embd c div n_head c) c (n_head c) n = Inr (hl, n1)"
      "length hl = n_head c" "list_all (wf_head c (n_embd c div n_head c)) hl"
    using Heads_init_ok[OF assms] by blast
  obtain p n2 where p: "Linear_init src (n_embd c) (n_embd c) True n1 = (p, n2)"
    by (cases "Linear_init src (n_embd c) (n_embd c) True n1")
  have "shaped (n_embd c) (n_embd c) True p"
    using shaped_Linear_init[of "n_embd c" "n_embd c" True src n1] p by simp
  then show ?thesis
    by (simp add: MultiHeadAttention_init_def hl p Dropout_init_ok[OF assms] wf_multi_head_attention_def)
qed

lemma FeedForward_init_ok:
  assumes "dropout_ok c"
  shows "\<exists>f n'. FeedForward_init src (n_embd c) c n = Inr (f, n') \<and> wf_feed_forward c f"
proof -
  obtain l0 n1 where l0: "Linear_init src (n_embd c) (4 * n_embd c) True n = (l0, n1)"
    by (cases "Linear_init src (n_embd c) (4 * n_embd c) True n")
  obtain l2 n2 where l2: "Linear_init src (4 * n_embd c) (n_embd c) True n1 = (l2, n2)"
    by (cases "Linear_init src (4 * n_embd c) (n_embd c) True n1")
  have "shaped (n_embd c) (4 * n_embd c) True l0" "shaped (4 * n_embd c) (n_embd c) True l2"
    using shaped_Linear_init[of "n_embd c" "4 * n_embd c" True src n]
      shaped_Linear_init[of "4 * n_embd c" "n_embd c" True src n1] l0 l2 by simp_all
  then show ?thesis
    by (simp add: FeedForward_init_def l0 l2 Dropout_init_ok[OF assms] wf_feed_forward_def)
qed

lemma Block_init_ok:
  assumes "dropout_ok c" "0 < n_head c"
  shows "\<exists>b n'. Block_init src c (n_embd c) (n_head c) n = Inr (b, n') \<and> wf_block c b"
proof -
  obtain a n1 where a: "MultiHeadAttention_init src (n_head c) (n_embd c div n_head c) c n = Inr (a, n1)"
      "wf_multi_head_attention c a"
    using MultiHeadAttention_init_ok[OF assms(1)] by blast
  obtain f n2 where f: "FeedForward_init src (n_embd c) c n1 = Inr (f, n2)" "wf_feed_forward c f"
    using FeedForward_init_ok[OF assms(1)] by blast
  show ?thesis
    using assms(2) by (simp add: Block_init_def floordiv_def a f wf_block_def wf_LayerNorm_init)
qed

lemma Block_init_zero_heads:
  "n_head c = 0 \<Longrightarrow> Block_init src c (n_embd c) (n_head c) n = Inl ZeroDivisionError"
  by (simp add: Block_init_def floordiv_def)

lemma Blocks_init_ok:
  assumes "dropout_ok c" "0 < n_head c"
  shows "\<exists>bl n'. Blocks_init src c k n = Inr (bl, n') \<and> length bl = k \<and> list_all (wf_block c) bl"
proof (induction k arbitrary: n)
  case 0
  show ?case by simp
next
  case (Suc k)
  obtain b n1 where b: "Block_init src c (n_embd c) (n_head c) n = Inr (b, n1)" "wf_block c b"
    using Block_init_ok[OF assms] by blast
  obtain bl n2 where bl: "Blocks_init src c k n1 = Inr (bl, n2)" "length bl = k" "list_all (wf_block c) bl"
    using Suc by blast
  show ?case by (simp add: b bl)
qed

lemma BigramLanguageModel_init_ok:
  assumes "dropout_ok c" "0 < n_head c"
  shows "\<exists>m n'. BigramLanguageModel_init src c n = Inr (m, n') \<and> wf_model m \<and> model_config m = c"
proof -
  obtain te n1 where te: "Embedding_init src (vocab_size c) (n_embd c) n = (te, n1)"
    by (cases "Embedding_init src (vocab_size c) (n_embd c) n")
  obtain pe n2 where pe: "Embedding_init src (block_size c) (n_embd c) n1 = (pe, n2)"
    by (cases "Embedding_init src (block_size c) (n_embd c) n1")
  obtain bl n3 where bl: "Blocks_init src c (n_layer c) n2 = Inr (bl, n3)" "length bl = n_layer c"
      "list_all (wf_block c) bl"
    using Blocks_init_ok[OF assms] by blast
  obtain lm n4 where lm: "Linear_init src (n_embd c) (vocab_size c) True n3 = (lm, n4)"
    by (cases "Linear_init src (n_embd c) (vocab_size c) True n3")
  have e: "wf_embedding te" "num_embeddings te = vocab_size c" "embedding_dim te = n_embd c"
    "wf_embedding pe" "num_embeddings pe = block_size c" "embedding_dim pe = n_embd c"
    using wf_Embedding_init[of src "vocab_size c" "n_embd c" n]
      wf_Embedding_init[of src "block_size c" "n_embd c" n1] te pe by simp_all
  have l: "shaped (n_embd c) (vocab_size c) True lm"
    using shaped_Linear_init[of "n_embd c" "vocab_size c" True src n3] lm by simp
  show ?thesis
    by (simp add: BigramLanguageModel_init_def te pe bl lm wf_model_def e l wf_LayerNorm_init)
qed

lemma BigramLanguageModel_init_zero_heads:
  assumes "n_head c = 0" "0 < n_layer c"
  shows "BigramLanguageModel_init src c n = Inl ZeroDivisionError"
proof -
  obtain k where k: "n_layer c = Suc k" using assms(2) by (cases "n_layer c") auto
  show ?thesis
    by (simp add: BigramLanguageModel_init_def k Block_init_zero_heads[OF assms(1)]
        split: prod.splits)
qed

lemma example_model_wf: "wf_model example_model \<and> model_config example_model = example_config"
proof -
  have "dropout_ok example_config" "0 < n_head example_config"
    by (simp_all add: dropout_ok_def example_config_def)
  then obtain m n' where "BigramLanguageModel_init (\<lambda>i. 0) example_config 0 = Inr (m, n')"
      "wf_model m" "model_config m = example_config"
    using BigramLanguageModel_init_ok by blast
  then show ?thesis by (simp add: example_model_def)
qed

lemma example_hyps:
  "wf_model example_model" "valid_config (model_config example_model)"
  "tokens_ok example_model example_idx"
  "cols2 example_idx \<le> block_size (model_config example_model)"
  using example_model_wf
  by (simp_all add: valid_config_def example_config_def tokens_ok_def wf2_def example_idx_def)

lemma model_mat_prefix:
  assumes "i < length toks" "i < length toks'" "take (Suc i) toks = take (Suc i) toks'"
  shows "model_mat m toks ! i = model_mat m toks' ! i"
proof -
  have "model_mat m toks ! i = take (Suc i) (model_mat m toks) ! i" by simp
  also have "\<dots> = model_mat m (take (Suc i) toks) ! i"
    using assms(1) by (simp only: causal_take[OF causal_model_mat, of "Suc i" toks m] Suc_le_eq)
  also have "\<dots> = model_mat m (take (Suc i) toks') ! i" by (simp only: assms(3))
  also have "\<dots> = take (Suc i) (model_mat m toks') ! i"
    using assms(2) by (simp only: causal_take[OF causal_model_mat, of "Suc i" toks' m] Suc_le_eq)
  also have "\<dots> = model_mat m toks' ! i" by simp
  finally show ?thesis .
qed

text \<open>
  Claim C1. Causality of \<^verbatim>\<open>forward\<close> with dropout disabled: for two batches of the same
  shape, with at most \<open>block_size\<close> columns, that differ at most in the tokens at position
  \<open>j\<close>, the logits at every position \<open>i < j\<close> of every sequence \<open>b\<close> are the same.
\<close>

theorem forward_causal:
  assumes "wf_model m" "valid_config (model_config m)"
    and "tokens_ok m idx" "tokens_ok m idx'"
    and "rows2 idx' = rows2 idx" "cols2 idx' = cols2 idx"
    and "cols2 idx \<le> block_size (model_config m)"
    and "i < j" "j < cols2 idx" "b < rows2 idx"
    and "\<forall>r < rows2 idx. \<forall>t < cols2 idx. t \<noteq> j \<longrightarrow> data2 idx' ! r ! t = data2 idx ! r ! t"
  shows "\<exists>l l'. BigramLanguageModel_forward m idx None = Inr (Logits3 l, Absent) \<and>
           BigramLanguageModel_forward m idx' None = Inr (Logits3 l', Absent) \<and>
           data l ! b ! i = data l' ! b ! i"
proof -
  let ?t = "data2 idx ! b" and ?t' = "data2 idx' ! b"
  have b: "b < length (data2 idx)" "b < length (data2 idx')"
    using assms(3,4,5,10) by (simp_all add: tokens_ok_def wf2_iff)
  have len: "length ?t = cols2 idx" "length ?t' = cols2 idx"
    using assms(3,4,6) b by (simp_all add: tokens_ok_def wf2_iff)
  have "take (Suc i) ?t = take (Suc i) ?t'"
  proof (rule nth_equalityI)
    show "length (take (Suc i) ?t) = length (take (Suc i) ?t')" by (simp add: len)
  next
    fix k assume "k < length (take (Suc i) ?t)"
    then have k: "k < Suc i" "k < cols2 idx" by (simp_all add: len)
    then have "k \<noteq> j" using assms(8) by simp
    then have "?t' ! k = ?t ! k" using assms(10,11) k by simp
    then show "take (Suc i) ?t ! k = take (Suc i) ?t' ! k" using k by simp
  qed
  then have "model_mat m ?t ! i = model_mat m ?t' ! i"
    using assms(8,9) by (intro model_mat_prefix) (simp_all add: len)
  then have "data (logits_of m idx) ! b ! i = data (logits_of m idx') ! b ! i"
    using b by (simp add: logits_of_def)
  moreover have "BigramLanguageModel_forward m idx None = Inr (Logits3 (logits_of m idx), Absent)"
    using assms(1,2,3,7) by (rule forward_None_closed)
  moreover have "BigramLanguageModel_forward m idx' None = Inr (Logits3 (logits_of m idx'), Absent)"
    using assms(1,2,4,6,7) by (intro forward_None_closed) simp_all
  ultimately show ?thesis by blast
qed

theorem forward_causal_witness:
  "wf_model example_model \<and> valid_config (model_config example_model) \<and>
   tokens_ok example_model example_idx \<and> tokens_ok example_model example_idx' \<and>
   rows2 example_idx' = rows2 example_idx \<and> cols2 example_idx' = cols2 example_idx \<and>
   cols2 example_idx \<le> block_size (model_config example_model) \<and>
   (0::nat) < 1 \<and> 1 < cols2 example_idx \<and> 0 < rows2 example_idx \<and>
   data2 example_idx' ! 0 ! 0 = data2 example_idx ! 0 ! 0 \<and>
   data2 example_idx' ! 0 ! 1 \<noteq> data2 example_idx ! 0 ! 1 \<and>
   (\<exists>l l'. BigramLanguageModel_forward example_model example_idx None = Inr (Logits3 l, Absent) \<and>
           BigramLanguageModel_forward example_model example_idx' None = Inr (Logits3 l', Absent) \<and>
           data l ! 0 ! 0 = data l' ! 0 ! 0)"
proof -
  have t': "tokens_ok example_model example_idx'"
    using example_model_wf by (simp add: tokens_ok_def wf2_def example_idx'_def example_config_def)
  have s: "rows2 example_idx' = rows2 example_idx" "cols2 example_idx' = cols2 example_idx"
    "(0::nat) < 1" "1 < cols2 example_idx" "0 < rows2 example_idx"
    by (simp_all add: example_idx_def example_idx'_def)
  have d: "\<forall>r < rows2 example_idx. \<forall>t < cols2 example_idx. t \<noteq> 1 \<longrightarrow>
      data2 example_idx' ! r ! t = data2 example_idx ! r ! t"
    by (simp add: example_idx_def example_idx'_def less_Suc_eq numeral_2_eq_2)
  have "\<exists>l l'. BigramLanguageModel_forward example_model example_idx None = Inr (Logits3 l, Absent) \<and>
           BigramLanguageModel_forward example_model example_idx' None = Inr (Logits3 l', Absent) \<and>
           data l ! 0 ! 0 = data l' ! 0 ! 0"
    using forward_causal[OF example_hyps(1,2,3) t' s(1,2) example_hyps(4) s(3,4,5) d] .
  then show ?thesis
    using example_hyps t' s by (simp add: example_idx_def example_idx'_def)
qed

lemma example_head_wf: "wf_head example_config 1 example_head"
proof -
  have "dropout_ok example_config" by (simp add: dropout_ok_def example_config_def)
  then obtain h n' where "Head_init (\<lambda>i. 0) 1 example_config 0 = Inr (h, n')"
      "wf_head example_config 1 h"
    using Head_init_ok by blast
  then show ?thesis by (simp add: example_head_def)
qed

lemma powr_neg_half: "0 < C \<Longrightarrow> real C powr (- (1 / 2)) = 1 / sqrt (real C)"
  by (simp add: powr_minus powr_half_sqrt inverse_eq_divide)

text \<open>
  Claim C5. In a head the scores are \<^verbatim>\<open>q @ k.transpose(-2, -1)\<close> times \<open>1 / sqrt C\<close>, where \<open>C\<close>
  is the width \<^verbatim>\<open>x.shape[-1]\<close> of the input of the head (\<open>n_embd\<close>), whatever the width
  \<open>head_size\<close> of the keys and queries is.
\<close>

theorem attention_scale:
  assumes "shaped (dimC x) head_size False (key h)" "shaped (dimC x) head_size False (query h)"
    and "wf3 x" "0 < dimC x" "b < dimB x" "i < dimT x" "j < dimT x"
  shows "\<exists>wei. Head_affinities h x = Inr wei \<and>
           data wei ! b ! i ! j =
             dot (linear_vec (query h) (data x ! b ! i)) (linear_vec (key h) (data x ! b ! j)) *
               (1 / sqrt (real (dimC x)))"
proof -
  have b: "b < length (data x)" using assms(3,5) by (simp add: wf3_iff)
  then have len: "length (data x ! b) = dimT x" using assms(3) by (simp add: wf3_iff)
  have "Head_affinities h x = Inr (lift3 (dimT x) (aff_mat h (real (dimC x) powr (- (1 / 2)))) x)"
    using assms(1,2) wf3_timed[OF assms(3)] assms(4) by (rule Head_affinities_closed)
  moreover have "data (lift3 (dimT x) (aff_mat h (real (dimC x) powr (- (1 / 2)))) x) ! b ! i ! j =
      dot (linear_vec (query h) (data x ! b ! i)) (linear_vec (key h) (data x ! b ! j)) *
               (1 / sqrt (real (dimC x)))"
    using b assms(4,6,7) by (simp add: aff_mat_def aff_def len powr_neg_half)
  ultimately show ?thesis by blast
qed

theorem attention_scale_witness:
  "shaped (dimC example_x) 1 False (key example_head) \<and>
   shaped (dimC example_x) 1 False (query example_head) \<and>
   wf3 example_x \<and> 0 < dimC example_x \<and> 0 < dimB example_x \<and> 0 < dimT example_x \<and>
   dimC example_x = 2 \<and>
   (\<exists>wei. Head_affinities example_head example_x = Inr wei \<and>
           data wei ! 0 ! 0 ! 0 =
             dot (linear_vec (query example_head) (data example_x ! 0 ! 0))
                 (linear_vec (key example_head) (data example_x ! 0 ! 0)) * (1 / sqrt (real (dimC example_x))))"
proof -
  have k: "shaped (dimC example_x) 1 False (key example_head)"
    and q: "shaped (dimC example_x) 1 False (query example_head)"
    using example_head_wf by (simp_all add: wf_head_def example_x_def example_config_def)
  have x: "wf3 example_x" "0 < dimC example_x" "0 < dimB example_x" "0 < dimT example_x"
    by (simp_all add: wf3_def example_x_def)
  show ?thesis
    using attention_scale[OF k q x x(4)] k q x by (simp add: example_x_def)
qed

lemma Block_forward_steps:
  assumes "wf_block c b" "n_head c * (n_embd c div n_head c) = n_embd c"
    and "timed x" "dimC x = n_embd c" "0 < n_embd c" "dimT x \<le> block_size c"
  shows "\<exists>n1 a x' n2 f y.
      LayerNorm_forward (ln1 b) x = Inr n1 \<and> MultiHeadAttention_forward (sa b) n1 = Inr a \<and>
      add3 x a = Inr x' \<and> LayerNorm_forward (ln2 b) x' = Inr n2 \<and>
      FeedForward_forward (ffwd b) n2 = Inr f \<and> add3 x' f = Inr y \<and> Block_forward b x = Inr y"
proof -
  have n: "normalized_shape (ln1 b) = n_embd c" "normalized_shape (ln2 b) = n_embd c"
    using assms(1) by (simp_all add: wf_block_def wf_norm_def)
  let ?n1 = "lift3 (n_embd c) (map (layer_norm_vec (ln1 b))) x"
  have l1: "LayerNorm_forward (ln1 b) x = Inr ?n1"
    using LayerNorm_forward_lift3[of x "ln1 b"] n assms(4) by simp
  have t1: "timed ?n1" using assms(3) by (simp add: timed_lift3)
  let ?a = "lift3 (n_embd c) (mha_mat (sa b) (scale_of c)) ?n1"
  have a: "MultiHeadAttention_forward (sa b) ?n1 = Inr ?a"
    using assms t1 by (intro MultiHeadAttention_forward_closed) (simp_all add: wf_block_def)
  let ?x1 = "lift3 (n_embd c) (\<lambda>m. map2 (map2 (+)) m (mha_mat (sa b) (scale_of c) (map (layer_norm_vec (ln1 b)) m))) x"
  have r1: "add3 x ?a = Inr ?x1"
    using add3_lift3[of x "\<lambda>m. mha_mat (sa b) (scale_of c) (map (layer_norm_vec (ln1 b)) m)"]
    by (simp add: lift3_lift3 assms(4) o_def)
  let ?n2 = "lift3 (n_embd c) (map (layer_norm_vec (ln2 b))) ?x1"
  have l2: "LayerNorm_forward (ln2 b) ?x1 = Inr ?n2"
    using LayerNorm_forward_lift3[of ?x1 "ln2 b"] n by simp
  let ?f = "lift3 (n_embd c) (ff_mat (ffwd b)) ?n2"
  have f: "FeedForward_forward (ffwd b) ?n2 = Inr ?f"
    using assms(1) by (intro FeedForward_forward_closed) (simp_all add: wf_block_def)
  obtain y where r2: "add3 ?x1 ?f = Inr y"
    by (simp add: add3_def)
  have "Block_forward b x = Inr y"
    by (simp add: Block_forward_def l1 a r1 l2 f r2)
  then show ?thesis using l1 a r1 l2 f r2 by blast
qed

lemma add3_data:
  "add3 x a = Inr y \<Longrightarrow> data y = map2 (map2 (map2 (+))) (data x) (data a)"
  by (auto simp: add3_def split: if_splits)

lemma example_block_wf: "wf_block example_config example_block"
proof -
  have c: "model_config example_model = example_config" using example_model_wf by simp
  have "list_all (wf_block (model_config example_model)) (blocks example_model)"
    "length (blocks example_model) = n_layer (model_config example_model)"
    using example_model_wf[THEN conjunct1] by (simp_all add: wf_model_def Let_def)
  then have "list_all (wf_block example_config) (blocks example_model)"
    "length (blocks example_model) = 1"
    by (simp_all add: c) (simp add: example_config_def)
  then show ?thesis by (cases "blocks example_model") (simp_all add: example_block_def)
qed

text \<open>
  Claim C6. A block computes \<open>x' = x + sa (ln1 x)\<close> and then \<open>x' + ffwd (ln2 x')\<close>, each step
  failing when one of its parts does; \<open>ln1\<close> and \<open>ln2\<close> are two fields of the block, and
  replacing one leaves the other as it is. On an input of the shape of the configuration
  every step succeeds, and the two sums are sums of entries.
\<close>

theorem Block_composition:
  "Block_forward b x =
     and_then (and_then (LayerNorm_forward (ln1 b) x) (MultiHeadAttention_forward (sa b))) (\<lambda>a.
     and_then (add3 x a) (\<lambda>x'.
     and_then (and_then (LayerNorm_forward (ln2 b) x') (FeedForward_forward (ffwd b))) (\<lambda>f.
     add3 x' f))) \<and>
   ln1 (b\<lparr>ln2 := g\<rparr>) = ln1 b \<and> ln2 (b\<lparr>ln1 := g\<rparr>) = ln2 b \<and>
   (wf_block c b \<and> valid_config c \<and> wf3 x \<and> dimC x = n_embd c \<and> dimT x \<le> block_size c \<longrightarrow>
     (\<exists>n1 a x' n2 f y.
        LayerNorm_forward (ln1 b) x = Inr n1 \<and> MultiHeadAttention_forward (sa b) n1 = Inr a \<and>
        add3 x a = Inr x' \<and> data x' = map2 (map2 (map2 (+))) (data x) (data a) \<and>
        LayerNorm_forward (ln2 b) x' = Inr n2 \<and> FeedForward_forward (ffwd b) n2 = Inr f \<and>
        add3 x' f = Inr y \<and> data y = map2 (map2 (map2 (+))) (data x') (data f) \<and>
        Block_forward b x = Inr y))"
proof -
  have "\<exists>n1 a x' n2 f y.
        LayerNorm_forward (ln1 b) x = Inr n1 \<and> MultiHeadAttention_forward (sa b) n1 = Inr a \<and>
        add3 x a = Inr x' \<and> data x' = map2 (map2 (map2 (+))) (data x) (data a) \<and>
        LayerNorm_forward (ln2 b) x' = Inr n2 \<and> FeedForward_forward (ffwd b) n2 = Inr f \<and>
        add3 x' f = Inr y \<and> data y = map2 (map2 (map2 (+))) (data x') (data f) \<and>
        Block_forward b x = Inr y"
    if h: "wf_block c b" "valid_config c" "wf3 x" "dimC x = n_embd c" "dimT x \<le> block_size c"
  proof -
    obtain n1 a x' n2 f y where st:
        "LayerNorm_forward (ln1 b) x = Inr n1" "MultiHeadAttention_forward (sa b) n1 = Inr a"
        "add3 x a = Inr x'" "LayerNorm_forward (ln2 b) x' = Inr n2"
        "FeedForward_forward (ffwd b) n2 = Inr f" "add3 x' f = Inr y" "Block_forward b x = Inr y"
      using Block_forward_steps[OF h(1) valid_config_heads[OF h(2)] wf3_timed[OF h(3)] h(4) _ h(5)] h(2)
      by (auto simp: valid_config_def)
    show ?thesis
      using st add3_data[OF st(3)] add3_data[OF st(6)] by blast
  qed
  then show ?thesis by (simp add: Block_forward_def and_then_assoc)
qed

theorem Block_composition_witness:
  "wf_block example_config example_block \<and> valid_config example_config \<and> wf3 example_x \<and>
   dimC example_x = n_embd example_config \<and> dimT example_x \<le> block_size example_config \<and>
   ln1 (example_block\<lparr>ln2 := LayerNorm_init 2\<rparr>) = ln1 example_block \<and>
   ln2 (example_block\<lparr>ln1 := LayerNorm_init 2\<rparr>) = ln2 example_block \<and>
   (\<exists>n1 a x' n2 f y.
        LayerNorm_forward (ln1 example_block) example_x = Inr n1 \<and>
        MultiHeadAttention_forward (sa example_block) n1 = Inr a \<and>
        add3 example_x a = Inr x' \<and> data x' = map2 (map2 (map2 (+))) (data example_x) (data a) \<and>
        LayerNorm_forward (ln2 example_block) x' = Inr n2 \<and>
        FeedForward_forward (ffwd example_block) n2 = Inr f \<and>
        add3 x' f = Inr y \<and> data y = map2 (map2 (map2 (+))) (data x') (data f) \<and>
        Block_forward example_block example_x = Inr y)"
proof -
  have h: "wf_block example_config example_block \<and> valid_config example_config \<and> wf3 example_x \<and>
   dimC example_x = n_embd example_config \<and> dimT example_x \<le> block_size example_config"
    using example_block_wf
    by (simp add: valid_config_def example_config_def wf3_def example_x_def)
  show ?thesis
    using Block_composition[of example_block example_x "LayerNorm_init 2" example_config] h
    by blast
qed

lemma length_concat_rows:
  "\<forall>r \<in> set xs. length r = n \<Longrightarrow> length (concat xs) = length xs * n"
  by (induction xs) simp_all

lemma forward_Some_closed:
  assumes "wf_model m" "valid_config (model_config m)" "tokens_ok m idx"
    and "cols2 idx \<le> block_size (model_config m)"
    and "tokens_ok m tg" "rows2 tg = rows2 idx" "cols2 tg = cols2 idx"
  shows "\<exists>lo. BigramLanguageModel_forward m idx (Some tg) =
      Inr (Logits2 \<lparr>rows2 = rows2 idx * cols2 idx, cols2 = vocab_size (model_config m),
                    data2 = concat (data (logits_of m idx))\<rparr>, lo) \<and>
      cross_entropy \<lparr>rows2 = rows2 idx * cols2 idx, cols2 = vocab_size (model_config m),
                    data2 = concat (data (logits_of m idx))\<rparr> (concat (data2 tg)) = Inr lo \<and>
      lo = (if rows2 idx * cols2 idx = 0 then NaN
            else Loss (sum_list (map2 nll_row (concat (data (logits_of m idx))) (concat (data2 tg))) /
                    real (rows2 idx * cols2 idx)))"
proof -
  let ?l2 = "\<lparr>rows2 = rows2 idx * cols2 idx, cols2 = vocab_size (model_config m),
                    data2 = concat (data (logits_of m idx))\<rparr>"
  have len: "length (concat (data2 tg)) = rows2 idx * cols2 idx"
    using assms(5,6,7) length_concat_rows[of "data2 tg" "cols2 tg"]
    by (simp add: tokens_ok_def wf2_iff)
  have ok: "list_all (\<lambda>t. t < vocab_size (model_config m)) (concat (data2 tg))"
    using assms(5) by (auto simp: tokens_ok_def list_all_iff)
  have v2: "view2 (dimB (logits_of m idx) * dimT (logits_of m idx)) (dimC (logits_of m idx)) (logits_of m idx) = Inr ?l2"
    by (simp add: view2_def logits_of_def)
  have v1: "view1 (dimB (logits_of m idx) * dimT (logits_of m idx)) tg = Inr (concat (data2 tg))"
    using assms(6,7) by (simp add: view1_def logits_of_def)
  have ce: "cross_entropy ?l2 (concat (data2 tg)) =
      Inr (if rows2 idx * cols2 idx = 0 then NaN
            else Loss (sum_list (map2 nll_row (concat (data (logits_of m idx))) (concat (data2 tg))) /
                    real (rows2 idx * cols2 idx)))"
  proof -
    have e: "(concat (data2 tg) = []) = (rows2 idx * cols2 idx = 0)"
      using len by (metis length_0_conv)
    show ?thesis
      by (simp add: cross_entropy_def len ok e del: concat_eq_Nil_conv)
  qed
  show ?thesis
    by (simp add: forward_via_logits logits3_closed[OF assms(1-4)] v2 v1 ce)
qed

text \<open>
  Claim C10. The logits that \<^verbatim>\<open>forward\<close> returns have three dimensions, shape
  \<open>(batch, time, vocab_size)\<close>, when no targets are given, and two dimensions, shape
  \<open>(batch * time, vocab_size)\<close>, when targets are given: the same entries, flattened by the
  \<^verbatim>\<open>view\<close> made for the loss.
\<close>

theorem forward_logits_shape:
  assumes "wf_model m" "valid_config (model_config m)" "tokens_ok m idx"
    and "cols2 idx \<le> block_size (model_config m)"
    and "tokens_ok m tg" "rows2 tg = rows2 idx" "cols2 tg = cols2 idx"
  shows "\<exists>l3 l2 lo.
      BigramLanguageModel_forward m idx None = Inr (Logits3 l3, Absent) \<and>
      dimB l3 = rows2 idx \<and> dimT l3 = cols2 idx \<and> dimC l3 = vocab_size (model_config m) \<and>
      BigramLanguageModel_forward m idx (Some tg) = Inr (Logits2 l2, lo) \<and>
      rows2 l2 = rows2 idx * cols2 idx \<and> cols2 l2 = vocab_size (model_config m) \<and>
      data2 l2 = concat (data l3) \<and> wf2 l2"
proof -
  let ?l2 = "\<lparr>rows2 = rows2 idx * cols2 idx, cols2 = vocab_size (model_config m),
                    data2 = concat (data (logits_of m idx))\<rparr>"
  obtain lo where lo: "BigramLanguageModel_forward m idx (Some tg) = Inr (Logits2 ?l2, lo)"
    using forward_Some_closed[OF assms] by blast
  have n: "BigramLanguageModel_forward m idx None = Inr (Logits3 (logits_of m idx), Absent)"
    using assms(1-4) by (rule forward_None_closed)
  have w: "wf3 (logits_of m idx)" using assms(1,3) by (rule wf3_logits_of)
  then have "length (concat (data (logits_of m idx))) = rows2 idx * cols2 idx"
    using length_concat_rows[of "data (logits_of m idx)" "cols2 idx"]
    by (simp add: wf3_iff logits_of_def)
  moreover have "\<forall>r \<in> set (concat (data (logits_of m idx))). length r = vocab_size (model_config m)"
    using w by (auto simp: wf3_iff logits_of_def)
  ultimately have "wf2 ?l2" by (simp add: wf2_iff)
  then show ?thesis
    using n lo by (intro exI[of _ "logits_of m idx"] exI[of _ ?l2] exI[of _ lo]) (simp add: logits_of_def)
qed

lemma example_targets_ok:
  "tokens_ok example_model example_targets" "rows2 example_targets = rows2 example_idx"
  "cols2 example_targets = cols2 example_idx"
  using example_model_wf
  by (simp_all add: tokens_ok_def wf2_def example_targets_def example_idx_def example_config_def)

theorem forward_logits_shape_witness:
  "wf_model example_model \<and> valid_config (model_config example_model) \<and>
   tokens_ok example_model example_idx \<and>
   cols2 example_idx \<le> block_size (model_config example_model) \<and>
   tokens_ok example_model example_targets \<and> rows2 example_targets = rows2 example_idx \<and>
   cols2 example_targets = cols2 example_idx \<and>
   (\<exists>l3 l2 lo.
      BigramLanguageModel_forward example_model example_idx None = Inr (Logits3 l3, Absent) \<and>
      dimB l3 = 1 \<and> dimT l3 = 2 \<and> dimC l3 = 2 \<and>
      BigramLanguageModel_forward example_model example_idx (Some example_targets) = Inr (Logits2 l2, lo) \<and>
      rows2 l2 = 2 \<and> cols2 l2 = 2 \<and> data2 l2 = concat (data l3) \<and> wf2 l2)"
proof -
  obtain l3 l2 lo where
      "BigramLanguageModel_forward example_model example_idx None = Inr (Logits3 l3, Absent)"
      "dimB l3 = rows2 example_idx" "dimT l3 = cols2 example_idx"
      "dimC l3 = vocab_size (model_config example_model)"
      "BigramLanguageModel_forward example_model example_idx (Some example_targets) = Inr (Logits2 l2, lo)"
      "rows2 l2 = rows2 example_idx * cols2 example_idx" "cols2 l2 = vocab_size (model_config example_model)"
      "data2 l2 = concat (data l3)" "wf2 l2"
    using forward_logits_shape[OF example_hyps example_targets_ok] by blast
  then show ?thesis
    using example_hyps example_targets_ok example_model_wf
    by (auto simp: example_idx_def example_config_def)
qed



lemma slice_last_ok:
  assumes "tokens_ok m idx" "1 \<le> n"
  shows "tokens_ok m (slice_last n idx)" "rows2 (slice_last n idx) = rows2 idx"
    "cols2 (slice_last n idx) = min n (cols2 idx)"
proof -
  have w: "length (data2 idx) = rows2 idx" "\<forall>r \<in> set (data2 idx). length r = cols2 idx"
    using assms(1) by (simp_all add: tokens_ok_def wf2_iff)
  have v: "\<forall>r \<in> set (data2 idx). \<forall>t \<in> set r. t < vocab_size (model_config m)"
    using assms(1) by (simp add: tokens_ok_def list_all_iff)
  have "\<forall>r \<in> set (data2 idx). \<forall>t \<in> set (drop (length r - n) r). t < vocab_size (model_config m)"
    using v by (meson in_set_dropD)
  then show "tokens_ok m (slice_last n idx)"
    using assms(2) w by (auto simp: tokens_ok_def wf2_iff slice_last_def list_all_iff)
  show "rows2 (slice_last n idx) = rows2 idx" "cols2 (slice_last n idx) = min n (cols2 idx)"
    using assms(2) by (simp_all add: slice_last_def)
qed

lemma logits_of_dims [simp]:
  "dimB (logits_of m idx) = rows2 idx" "dimT (logits_of m idx) = cols2 idx"
  "dimC (logits_of m idx) = vocab_size (model_config m)"
  by (simp_all add: logits_of_def)

lemma next_token_probs_ok:
  assumes "wf_model m" "valid_config (model_config m)" "1 \<le> block_size (model_config m)"
    and "tokens_ok m idx" "1 \<le> cols2 idx"
  shows "\<exists>p. next_token_probs m idx = Inr p \<and> wf2 p \<and> rows2 p = rows2 idx \<and>
           cols2 p = vocab_size (model_config m)"
proof -
  let ?c = "slice_last (block_size (model_config m)) idx"
  have c: "tokens_ok m ?c" "rows2 ?c = rows2 idx" "cols2 ?c = min (block_size (model_config m)) (cols2 idx)"
    using slice_last_ok[OF assms(4,3)] by simp_all
  have le: "cols2 ?c \<le> block_size (model_config m)" and pos: "cols2 ?c \<noteq> 0"
    using c(3) assms(3,5) by simp_all
  have f: "BigramLanguageModel_forward m ?c None = Inr (Logits3 (logits_of m ?c), Absent)"
    using assms(1,2) c(1) le by (rule forward_None_closed)
  have w: "wf3 (logits_of m ?c)" using assms(1) c(1) by (rule wf3_logits_of)
  let ?p = "softmax2 \<lparr>rows2 = dimB (logits_of m ?c), cols2 = dimC (logits_of m ?c),
              data2 = map last (data (logits_of m ?c))\<rparr>"
  have "next_token_probs m idx = Inr ?p"
    using pos by (simp add: next_token_probs_def Let_def f select_last_def)
  moreover have "rows2 ?p = rows2 idx" "cols2 ?p = vocab_size (model_config m)"
    using c(2) by (simp_all add: softmax2_def)
  moreover have "wf2 ?p"
  proof -
    have "length (last mt) = vocab_size (model_config m)" if "mt \<in> set (data (logits_of m ?c))" for mt
    proof -
      have "length mt = cols2 ?c" "\<forall>r \<in> set mt. length r = vocab_size (model_config m)"
        using w that by (auto simp: wf3_iff)
      moreover from this pos have "mt \<noteq> []" by auto
      ultimately show ?thesis by simp
    qed
    moreover have "length (data (logits_of m ?c)) = rows2 ?c"
      using w by (simp add: wf3_iff)
    ultimately show ?thesis
      by (simp add: wf2_iff softmax2_def)
  qed
  ultimately show ?thesis by blast
qed

lemma multinomial_rows_ok:
  assumes "sampler_ok draw" "\<forall>p \<in> set ps. length p = v" "0 < v"
  shows "\<exists>d s'. multinomial_rows draw s ps = (d, s') \<and> length d = length ps \<and>
           (\<forall>r \<in> set d. \<exists>t < v. r = [t])"
  using assms(2)
proof (induction ps arbitrary: s)
  case Nil
  show ?case by simp
next
  case (Cons p ps)
  obtain t s1 where t: "draw s p = (t, s1)" by (cases "draw s p")
  have "p \<noteq> []" using Cons.prems assms(3) by auto
  then have tv: "t < v" using assms(1) t Cons.prems by (auto simp: sampler_ok_def dest!: spec[of _ s] spec[of _ p])
  obtain d s2 where d: "multinomial_rows draw s1 ps = (d, s2)" "length d = length ps"
      "\<forall>r \<in> set d. \<exists>t < v. r = [t]"
    using Cons.IH[of s1] Cons.prems by auto
  show ?case using tv by (simp add: t d)
qed

lemma generate_step_ok:
  assumes "wf_model m" "valid_config (model_config m)" "1 \<le> block_size (model_config m)"
    and "0 < vocab_size (model_config m)"
    and "tokens_ok m idx" "1 \<le> cols2 idx" "sampler_ok draw"
  shows "\<exists>probs nxt s1 idx1.
      next_token_probs m idx = Inr probs \<and> multinomial draw s probs = Inr (nxt, s1) \<and>
      cat1 idx nxt = Inr idx1 \<and> tokens_ok m idx1 \<and> rows2 idx1 = rows2 idx \<and>
      cols2 idx1 = Suc (cols2 idx) \<and> map (take (cols2 idx)) (data2 idx1) = data2 idx \<and>
      rows2 nxt = rows2 idx \<and> cols2 nxt = 1 \<and>
      data2 nxt = map (\<lambda>r. [r ! cols2 idx]) (data2 idx1)"
proof -
  let ?v = "vocab_size (model_config m)"
  have w: "length (data2 idx) = rows2 idx" "\<forall>r \<in> set (data2 idx). length r = cols2 idx"
    using assms(5) by (simp_all add: tokens_ok_def wf2_iff)
  have tk: "\<forall>r \<in> set (data2 idx). \<forall>t \<in> set r. t < ?v"
    using assms(5) by (simp add: tokens_ok_def list_all_iff)
  have v: "0 < ?v" by (rule assms(4))
  obtain probs where p: "next_token_probs m idx = Inr probs" "wf2 probs" "rows2 probs = rows2 idx"
      "cols2 probs = ?v"
    using next_token_probs_ok[OF assms(1,2,3,5,6)] by blast
  have pr: "length (data2 probs) = rows2 idx" "\<forall>q \<in> set (data2 probs). length q = ?v"
    using p by (simp_all add: wf2_iff)
  obtain d s1 where d: "multinomial_rows draw s (data2 probs) = (d, s1)" "length d = rows2 idx"
      "\<forall>r \<in> set d. \<exists>t < ?v. r = [t]"
    using multinomial_rows_ok[OF assms(7) pr(2) v, of s] pr(1) by auto
  let ?nxt = "\<lparr>rows2 = rows2 probs, cols2 = 1, data2 = d\<rparr> :: nat tensor2"
  let ?idx1 = "\<lparr>rows2 = rows2 idx, cols2 = cols2 idx + cols2 ?nxt,
               data2 = map2 (@) (data2 idx) (data2 ?nxt)\<rparr> :: nat tensor2"
  have mn: "multinomial draw s probs = Inr (?nxt, s1)"
    using v by (simp add: multinomial_def p d)
  have ct: "cat1 idx ?nxt = Inr ?idx1" by (simp add: cat1_def p)
  have rows: "\<forall>(r, e) \<in> set (zip (data2 idx) d). length r = cols2 idx \<and> (\<exists>t < ?v. e = [t]) \<and> (\<forall>t \<in> set r. t < ?v)"
    using w(2) d(3) tk by (auto dest: set_zip_leftD set_zip_rightD)
  have ok: "tokens_ok m ?idx1"
    using rows w(1) d(2) by (fastforce simp: tokens_ok_def wf2_iff list_all_iff)
  have pre: "map (take (cols2 idx)) (data2 ?idx1) = data2 idx"
  proof (rule nth_equalityI)
    show "length (map (take (cols2 idx)) (data2 ?idx1)) = length (data2 idx)"
      using w(1) d(2) by simp
  next
    fix i assume "i < length (map (take (cols2 idx)) (data2 ?idx1))"
    then have i: "i < length (data2 idx)" "i < length d" using w(1) d(2) by simp_all
    then have "length (data2 idx ! i) = cols2 idx" using w(2) by simp
    then show "map (take (cols2 idx)) (data2 ?idx1) ! i = data2 idx ! i" using i by simp
  qed
  have col: "data2 ?nxt = map (\<lambda>r. [r ! cols2 idx]) (data2 ?idx1)"
  proof (rule nth_equalityI)
    show "length (data2 ?nxt) = length (map (\<lambda>r. [r ! cols2 idx]) (data2 ?idx1))"
      using w(1) d(2) by simp
  next
    fix i assume "i < length (data2 ?nxt)"
    then have i: "i < length (data2 idx)" "i < length d" using w(1) d(2) by simp_all
    then have l: "length (data2 idx ! i) = cols2 idx" using w(2) by simp
    obtain t where "d ! i = [t]" using d(3) i(2) by (metis nth_mem)
    then show "data2 ?nxt ! i = map (\<lambda>r. [r ! cols2 idx]) (data2 ?idx1) ! i"
      using i l by (simp add: nth_append)
  qed
  show ?thesis
    using p(1,3) mn ct ok pre col
    by (intro exI[of _ probs] exI[of _ ?nxt] exI[of _ s1] exI[of _ ?idx1]) simp
qed

lemma generate_ok:
  assumes "wf_model m" "valid_config (model_config m)" "1 \<le> block_size (model_config m)"
    and "0 < vocab_size (model_config m)"
    and "tokens_ok m idx" "1 \<le> cols2 idx" "sampler_ok draw"
  shows "\<exists>out s'. generate m draw s idx k = Inr (out, s') \<and> tokens_ok m out \<and>
           rows2 out = rows2 idx \<and> cols2 out = cols2 idx + k \<and>
           map (take (cols2 idx)) (data2 out) = data2 idx"
  using assms(5,6)
proof (induction k arbitrary: idx s)
  case 0
  then have "map (take (cols2 idx)) (data2 idx) = data2 idx"
    by (simp add: tokens_ok_def wf2_iff map_idI)
  then show ?case using 0 by simp
next
  case (Suc k)
  obtain probs nxt s1 idx1 where st:
      "next_token_probs m idx = Inr probs" "multinomial draw s probs = Inr (nxt, s1)"
      "cat1 idx nxt = Inr idx1" "tokens_ok m idx1" "rows2 idx1 = rows2 idx"
      "cols2 idx1 = Suc (cols2 idx)" "map (take (cols2 idx)) (data2 idx1) = data2 idx"
    using generate_step_ok[OF assms(1,2,3,4) Suc.prems assms(7), of s] by blast
  obtain out s' where out: "generate m draw s1 idx1 k = Inr (out, s')" "tokens_ok m out"
      "rows2 out = rows2 idx1" "cols2 out = cols2 idx1 + k"
      "map (take (cols2 idx1)) (data2 out) = data2 idx1"
    using Suc.IH[of idx1 s1] st(4,6) by auto
  have "map (take (cols2 idx)) (data2 out) = map (take (cols2 idx)) (map (take (cols2 idx1)) (data2 out))"
    by (simp add: st(6) min_def)
  then have "map (take (cols2 idx)) (data2 out) = data2 idx"
    by (simp only: out(5) st(7))
  then show ?case using out st by simp
qed

lemma generate_add:
  "generate m draw s idx (n + j) =
     and_then (generate m draw s idx n) (\<lambda>(cur, s1). generate m draw s1 cur j)"
proof (induction n arbitrary: s idx)
  case 0
  show ?case by simp
next
  case (Suc n)
  show ?case
  proof (cases "next_token_probs m idx")
    case (Inl e)
    then show ?thesis by simp
  next
    case (Inr probs)
    show ?thesis
    proof (cases "multinomial draw s probs")
      case (Inl e)
      then show ?thesis using Inr by simp
    next
      case mn: (Inr r)
      obtain nxt s1 where r: "r = (nxt, s1)" by (cases r)
      show ?thesis
      proof (cases "cat1 idx nxt")
        case (Inl e)
        then show ?thesis using Inr mn r by simp
      next
        case ct: (Inr idx1)
        show ?thesis using Inr mn r ct Suc.IH[of s1 idx1] by simp
      qed
    qed
  qed
qed

text \<open>
  Claim C2. For a model with the shapes of a valid configuration, a context of at least
  one token (\<open>block_size \<ge> 1\<close>) and a vocabulary that is not empty, a batch (of any number
  of rows, also none) of sequences of \<open>L \<ge> 1\<close> tokens of the vocabulary and a sampler that
  returns an index of the distribution it is given, \<^verbatim>\<open>generate\<close> with
  \<open>max_new_tokens = k\<close> returns a batch of the same number of sequences, each of \<open>L + k\<close>
  tokens of the vocabulary, whose first \<open>L\<close> columns are the input. The loop runs \<open>k\<close>
  times and iteration \<open>n\<close> appends one sampled token to every sequence: the first \<open>L + n\<close>
  columns of the result are the running sequence \<open>cur\<close> after \<open>n\<close> iterations, and column
  \<open>L + n\<close> of the result is what \<^verbatim>\<open>torch.multinomial\<close> draws, in the state of the generator
  after \<open>n\<close> iterations, from the probabilities that \<^verbatim>\<open>forward\<close> and \<^verbatim>\<open>softmax\<close> give for
  \<open>cur\<close>.
\<close>

theorem generate_length_prefix:
  assumes "wf_model m" "valid_config (model_config m)" "1 \<le> block_size (model_config m)"
    and "0 < vocab_size (model_config m)"
    and "tokens_ok m idx" "1 \<le> cols2 idx" "sampler_ok draw"
  shows "\<exists>out s'. generate m draw s idx k = Inr (out, s') \<and> tokens_ok m out \<and>
           rows2 out = rows2 idx \<and> cols2 out = cols2 idx + k \<and>
           map (take (cols2 idx)) (data2 out) = data2 idx \<and>
           (\<forall>n < k. \<exists>cur s1 probs nxt s2.
              generate m draw s idx n = Inr (cur, s1) \<and>
              data2 cur = map (take (cols2 idx + n)) (data2 out) \<and>
              next_token_probs m cur = Inr probs \<and>
              multinomial draw s1 probs = Inr (nxt, s2) \<and>
              rows2 nxt = rows2 idx \<and> cols2 nxt = 1 \<and>
              data2 nxt = map (\<lambda>r. [r ! (cols2 idx + n)]) (data2 out))"
proof -
  obtain out s' where out: "generate m draw s idx k = Inr (out, s')" "tokens_ok m out"
      "rows2 out = rows2 idx" "cols2 out = cols2 idx + k"
      "map (take (cols2 idx)) (data2 out) = data2 idx"
    using generate_ok[OF assms, of s k] by blast
  have "\<exists>cur s1 probs nxt s2.
      generate m draw s idx n = Inr (cur, s1) \<and>
      data2 cur = map (take (cols2 idx + n)) (data2 out) \<and>
      next_token_probs m cur = Inr probs \<and>
      multinomial draw s1 probs = Inr (nxt, s2) \<and>
      rows2 nxt = rows2 idx \<and> cols2 nxt = 1 \<and>
      data2 nxt = map (\<lambda>r. [r ! (cols2 idx + n)]) (data2 out)" if n: "n < k" for n
  proof -
    obtain cur s1 where cur: "generate m draw s idx n = Inr (cur, s1)" "tokens_ok m cur"
        "rows2 cur = rows2 idx" "cols2 cur = cols2 idx + n"
      using generate_ok[OF assms, of s n] by blast
    have c1: "1 \<le> cols2 cur" using cur(4) assms(6) by simp
    obtain probs nxt s2 idx1 where st:
        "next_token_probs m cur = Inr probs" "multinomial draw s1 probs = Inr (nxt, s2)"
        "cat1 cur nxt = Inr idx1" "tokens_ok m idx1" "rows2 idx1 = rows2 cur"
        "cols2 idx1 = Suc (cols2 cur)" "map (take (cols2 cur)) (data2 idx1) = data2 cur"
        "rows2 nxt = rows2 cur" "cols2 nxt = 1"
        "data2 nxt = map (\<lambda>r. [r ! cols2 cur]) (data2 idx1)"
      using generate_step_ok[OF assms(1,2,3,4) cur(2) c1 assms(7), of s1] by blast
    have c2: "1 \<le> cols2 idx1" using st(6) by simp
    obtain j where j: "k = Suc n + j" using n by (metis less_iff_Suc_add add_Suc)
    have "generate m draw s idx (n + Suc j) = generate m draw s2 idx1 j"
      by (simp only: generate_add[of m draw s idx n "Suc j"] cur(1)) (simp add: st)
    then have g: "generate m draw s2 idx1 j = Inr (out, s')" using out(1) j by simp
    obtain out' s'' where o': "generate m draw s2 idx1 j = Inr (out', s'')"
        "map (take (cols2 idx1)) (data2 out') = data2 idx1"
      using generate_ok[OF assms(1,2,3,4) st(4) c2 assms(7), of s2 j] by blast
    have pre1: "map (take (Suc (cols2 cur))) (data2 out) = data2 idx1"
      using o' g st(6) by simp
    have "map (take (cols2 cur)) (data2 out) =
        map (take (cols2 cur)) (map (take (Suc (cols2 cur))) (data2 out))"
      by (simp add: min_def)
    then have "map (take (cols2 cur)) (data2 out) = data2 cur"
      unfolding pre1 st(7) .
    then have a: "data2 cur = map (take (cols2 idx + n)) (data2 out)"
      by (simp add: cur(4))
    have "map (\<lambda>r. [r ! cols2 cur]) (data2 idx1) =
        map (\<lambda>r. [r ! cols2 cur]) (map (take (Suc (cols2 cur))) (data2 out))"
      by (simp only: pre1)
    then have b: "data2 nxt = map (\<lambda>r. [r ! (cols2 idx + n)]) (data2 out)"
      by (simp add: st(10) cur(4))
    show ?thesis
      using cur(1,3) st(1,2,8,9) a b by auto
  qed
  then show ?thesis using out by blast
qed

lemma example_draw_ok: "sampler_ok example_draw"
  by (simp add: sampler_ok_def example_draw_def)

theorem generate_length_prefix_witness:
  "wf_model example_model \<and> valid_config (model_config example_model) \<and>
   1 \<le> block_size (model_config example_model) \<and>
   0 < vocab_size (model_config example_model) \<and> tokens_ok example_model example_long \<and>
   1 \<le> cols2 example_long \<and> sampler_ok example_draw \<and>
   block_size (model_config example_model) < cols2 example_long \<and>
   (\<exists>out s'. generate example_model example_draw 0 example_long 2 = Inr (out, s') \<and>
           tokens_ok example_model out \<and> rows2 out = 1 \<and> cols2 out = 5 \<and>
           map (take 3) (data2 out) = [[0, 1, 0]] \<and>
           (\<exists>cur s1 probs nxt s2.
              generate example_model example_draw 0 example_long 1 = Inr (cur, s1) \<and>
              data2 cur = map (take 4) (data2 out) \<and>
              next_token_probs example_model cur = Inr probs \<and>
              multinomial example_draw s1 probs = Inr (nxt, s2) \<and>
              data2 nxt = map (\<lambda>r. [r ! 4]) (data2 out)))"
proof -
  have h: "1 \<le> block_size (model_config example_model)"
    "0 < vocab_size (model_config example_model)" "tokens_ok example_model example_long"
    "1 \<le> cols2 example_long"
    "block_size (model_config example_model) < cols2 example_long"
    using example_model_wf
    by (simp_all add: example_config_def example_long_def tokens_ok_def wf2_def)
  obtain out s' where o: "generate example_model example_draw 0 example_long 2 = Inr (out, s')"
      "tokens_ok example_model out" "rows2 out = rows2 example_long"
      "cols2 out = cols2 example_long + 2"
      "map (take (cols2 example_long)) (data2 out) = data2 example_long"
      "\<forall>n < 2. \<exists>cur s1 probs nxt s2.
              generate example_model example_draw 0 example_long n = Inr (cur, s1) \<and>
              data2 cur = map (take (cols2 example_long + n)) (data2 out) \<and>
              next_token_probs example_model cur = Inr probs \<and>
              multinomial example_draw s1 probs = Inr (nxt, s2) \<and>
              rows2 nxt = rows2 example_long \<and> cols2 nxt = 1 \<and>
              data2 nxt = map (\<lambda>r. [r ! (cols2 example_long + n)]) (data2 out)"
    using generate_length_prefix[OF example_hyps(1,2) h(1,2,3,4) example_draw_ok, of 0 2] by blast
  have one: "(1::nat) < 2" by simp
  from o(6)[rule_format, OF one] obtain cur s1 probs nxt s2 where
      c: "generate example_model example_draw 0 example_long 1 = Inr (cur, s1)"
      "data2 cur = map (take (cols2 example_long + 1)) (data2 out)"
      "next_token_probs example_model cur = Inr probs"
      "multinomial example_draw s1 probs = Inr (nxt, s2)"
      "data2 nxt = map (\<lambda>r. [r ! (cols2 example_long + 1)]) (data2 out)"
    by blast
  have n4: "cols2 example_long + 1 = 4" by (simp add: example_long_def)
  have inner: "\<exists>cur s1 probs nxt s2.
              generate example_model example_draw 0 example_long 1 = Inr (cur, s1) \<and>
              data2 cur = map (take 4) (data2 out) \<and>
              next_token_probs example_model cur = Inr probs \<and>
              multinomial example_draw s1 probs = Inr (nxt, s2) \<and>
              data2 nxt = map (\<lambda>r. [r ! 4]) (data2 out)"
    using c unfolding n4 by blast
  have outer: "rows2 out = 1" "cols2 out = 5" "map (take 3) (data2 out) = [[0, 1, 0]]"
    using o(3,4,5) by (simp_all add: example_long_def)
  have ex: "\<exists>out s'. generate example_model example_draw 0 example_long 2 = Inr (out, s') \<and>
           tokens_ok example_model out \<and> rows2 out = 1 \<and> cols2 out = 5 \<and>
           map (take 3) (data2 out) = [[0, 1, 0]] \<and>
           (\<exists>cur s1 probs nxt s2.
              generate example_model example_draw 0 example_long 1 = Inr (cur, s1) \<and>
              data2 cur = map (take 4) (data2 out) \<and>
              next_token_probs example_model cur = Inr probs \<and>
              multinomial example_draw s1 probs = Inr (nxt, s2) \<and>
              data2 nxt = map (\<lambda>r. [r ! 4]) (data2 out))"
    by (rule exI[of _ out], rule exI[of _ s']) (intro conjI o(1) o(2) outer inner)
  show ?thesis
    by (intro conjI example_hyps(1) example_hyps(2) h example_draw_ok ex)
qed




lemma Embedding_forward_cases:
  "Embedding_forward e idx = Inl IndexError \<or> (\<exists>x. Embedding_forward e idx = Inr x)"
  by (simp add: Embedding_forward_def)

lemma positions_out_of_range:
  assumes "num_embeddings e < T"
  shows "Embedding_forward1 e (arange T) = Inl IndexError"
proof -
  have "num_embeddings e \<in> set [0..<T]" using assms by simp
  then have "\<not> list_all (\<lambda>i. i < num_embeddings e) [0..<T]"
    unfolding list_all_iff by blast
  then show ?thesis by (simp add: Embedding_forward1_def arange_def)
qed

lemma forward_too_long:
  assumes "num_embeddings (position_embedding_table m) < cols2 idx"
  shows "BigramLanguageModel_forward m idx targets = Inl IndexError"
  using Embedding_forward_cases[of "token_embedding_table m" idx]
    positions_out_of_range[OF assms]
  by (auto simp: BigramLanguageModel_forward_def Let_def)

text \<open>
  Claim C4, as the code has it. A batch with more than \<open>block_size\<close> columns makes
  \<^verbatim>\<open>forward\<close> fail, with or without targets, and the error is the \<^verbatim>\<open>IndexError\<close> of an
  embedding lookup (the positions \<open>0, \<dots>, T - 1\<close> are looked up in a table of \<open>block_size\<close>
  rows before any attention mask is used), not a mismatch of dimensions; \<^verbatim>\<open>forward\<close> does
  not crop its input. The loop of \<^verbatim>\<open>generate\<close> does not meet the error on the same
  batch: it crops the batch to its last \<open>block_size\<close> columns, on which \<^verbatim>\<open>forward\<close> succeeds.
\<close>

theorem forward_context_too_long:
  assumes "wf_model m" "valid_config (model_config m)" "1 \<le> block_size (model_config m)"
    and "tokens_ok m idx" "block_size (model_config m) < cols2 idx"
  shows "BigramLanguageModel_forward m idx targets = Inl IndexError \<and>
         cols2 (slice_last (block_size (model_config m)) idx) = block_size (model_config m) \<and>
         (\<exists>l. BigramLanguageModel_forward m (slice_last (block_size (model_config m)) idx) None =
                 Inr (Logits3 l, Absent)) \<and>
         (\<exists>p. next_token_probs m idx = Inr p)"
proof -
  let ?n = "block_size (model_config m)"
  have "num_embeddings (position_embedding_table m) = ?n"
    using assms(1) by (simp add: wf_model_def Let_def)
  then have a: "BigramLanguageModel_forward m idx targets = Inl IndexError"
    using assms(5) by (intro forward_too_long) simp
  have c: "tokens_ok m (slice_last ?n idx)" "cols2 (slice_last ?n idx) = min ?n (cols2 idx)"
    using slice_last_ok[OF assms(4,3)] by simp_all
  then have b: "cols2 (slice_last ?n idx) = ?n" using assms(5) by simp
  have "BigramLanguageModel_forward m (slice_last ?n idx) None =
      Inr (Logits3 (logits_of m (slice_last ?n idx)), Absent)"
    using assms(1,2) c(1) b by (intro forward_None_closed) simp_all
  moreover have "\<exists>p. next_token_probs m idx = Inr p"
    using next_token_probs_ok[OF assms(1,2,3,4)] assms(3,5) by force
  ultimately show ?thesis using a b by blast
qed

theorem forward_context_too_long_witness:
  "wf_model example_model \<and> valid_config (model_config example_model) \<and>
   1 \<le> block_size (model_config example_model) \<and> tokens_ok example_model example_long \<and>
   block_size (model_config example_model) < cols2 example_long \<and>
   BigramLanguageModel_forward example_model example_long None = Inl IndexError \<and>
   (\<exists>p. next_token_probs example_model example_long = Inr p)"
proof -
  have h: "1 \<le> block_size (model_config example_model)" "tokens_ok example_model example_long"
    "block_size (model_config example_model) < cols2 example_long"
    using example_model_wf
    by (simp_all add: example_config_def example_long_def tokens_ok_def wf2_def)
  show ?thesis
    using forward_context_too_long[OF example_hyps(1,2) h, of None] example_hyps(1,2) h by blast
qed

theorem forward_context_too_long_counterexample:
  "block_size (model_config example_model) < cols2 example_long \<and>
   BigramLanguageModel_forward example_model example_long None = Inl IndexError \<and>
   BigramLanguageModel_forward example_model example_long None \<noteq> Inl ShapeError"
proof -
  have w: "num_embeddings (position_embedding_table example_model) = 2"
    "block_size (model_config example_model) = 2"
    using example_model_wf by (simp_all add: wf_model_def Let_def example_config_def)
  then have "BigramLanguageModel_forward example_model example_long None = Inl IndexError"
    by (intro forward_too_long) (simp add: example_long_def)
  then show ?thesis using w by (simp add: example_long_def)
qed

lemma embedded_closed:
  assumes "wf_model m" "tokens_ok m idx" "cols2 idx \<le> block_size (model_config m)"
  shows "forward_logits m idx =
     and_then (Sequential_forward (blocks m)
         \<lparr>dimB = rows2 idx, dimT = cols2 idx, dimC = n_embd (model_config m),
          data = map (embed_mat m) (data2 idx)\<rparr>) (\<lambda>x.
      and_then (LayerNorm_forward (ln_f m) x) (\<lambda>x.
      Linear_forward (lm_head m) x))"
    and "timed \<lparr>dimB = rows2 idx, dimT = cols2 idx, dimC = n_embd (model_config m),
          data = map (embed_mat m) (data2 idx)\<rparr>"
proof -
  let ?c = "model_config m"
  have w: "num_embeddings (token_embedding_table m) = vocab_size ?c"
    "embedding_dim (token_embedding_table m) = n_embd ?c"
    "num_embeddings (position_embedding_table m) = block_size ?c"
    "embedding_dim (position_embedding_table m) = n_embd ?c"
    using assms(1) by (simp_all add: wf_model_def Let_def)
  have len: "length r = cols2 idx" if "r \<in> set (data2 idx)" for r
    using assms(2) that by (simp add: tokens_ok_def wf2_iff)
  have rows: "length (data2 idx) = rows2 idx"
    using assms(2) by (simp add: tokens_ok_def wf2_iff)
  have te: "Embedding_forward (token_embedding_table m) idx =
     Inr \<lparr>dimB = rows2 idx, dimT = cols2 idx, dimC = n_embd ?c,
          data = map (map (\<lambda>i. emb_weight (token_embedding_table m) ! i)) (data2 idx)\<rparr>"
    using assms(2) by (simp add: Embedding_forward_def tokens_ok_def w)
  have pe: "Embedding_forward1 (position_embedding_table m) (arange (cols2 idx)) =
     Inr \<lparr>rows2 = cols2 idx, cols2 = n_embd ?c,
          data2 = map (\<lambda>i. emb_weight (position_embedding_table m) ! i) [0..<cols2 idx]\<rparr>"
    using assms(3) by (simp add: Embedding_forward1_def arange_def w list_all_iff)
  let ?x = "\<lparr>dimB = rows2 idx, dimT = cols2 idx, dimC = n_embd ?c,
             data = map (embed_mat m) (data2 idx)\<rparr> :: real tensor3"
  have ab: "add_broadcast \<lparr>dimB = rows2 idx, dimT = cols2 idx, dimC = n_embd ?c,
          data = map (map (\<lambda>i. emb_weight (token_embedding_table m) ! i)) (data2 idx)\<rparr>
        \<lparr>rows2 = cols2 idx, cols2 = n_embd ?c,
          data2 = map (\<lambda>i. emb_weight (position_embedding_table m) ! i) [0..<cols2 idx]\<rparr> = Inr ?x"
    by (simp add: add_broadcast_def embed_mat_def len o_def cong: map_cong)
  show "timed ?x" by (simp add: timed_def rows len)
  show "forward_logits m idx =
     and_then (Sequential_forward (blocks m) ?x) (\<lambda>x.
      and_then (LayerNorm_forward (ln_f m) x) (\<lambda>x.
      Linear_forward (lm_head m) x))"
    by (simp add: forward_logits_def te pe ab)
qed

lemma MultiHeadAttention_forward_mismatch:
  assumes "wf_multi_head_attention c a" "0 < n_head c"
    and "n_head c * (n_embd c div n_head c) \<noteq> n_embd c"
    and "timed x" "dimC x = n_embd c" "0 < n_embd c" "dimT x \<le> block_size c"
  shows "MultiHeadAttention_forward a x = Inl ShapeError"
proof -
  let ?hs = "n_embd c div n_head c"
  have hd: "\<forall>h \<in> set (heads a). Head_forward h x = Inr (lift3 ?hs (head_mat h (scale_of c)) x)"
    using assms by (auto simp: wf_multi_head_attention_def list_all_iff scale_of_def
        intro!: Head_forward_closed)
  have ne: "heads a \<noteq> []" and len: "length (heads a) = n_head c"
    using assms(1,2) by (auto simp: wf_multi_head_attention_def)
  have tm: "\<forall>m \<in> set (data x). length m = dimT x" using assms(4) by (simp add: timed_def)
  have pr: "in_features (proj a) = n_embd c"
    using assms(1) by (simp add: wf_multi_head_attention_def shaped_def)
  show ?thesis
    using assms(3)
    by (simp add: MultiHeadAttention_forward_def collect_heads[OF hd] cat_last_lift3[OF ne tm]
        len Linear_forward_def pr)
qed

lemma forward_heads_mismatch:
  assumes "wf_model m" "0 < n_head (model_config m)"
    and "n_head (model_config m) * (n_embd (model_config m) div n_head (model_config m)) \<noteq>
           n_embd (model_config m)"
    and "0 < n_layer (model_config m)"
    and "tokens_ok m idx" "cols2 idx \<le> block_size (model_config m)"
  shows "BigramLanguageModel_forward m idx targets = Inl ShapeError"
proof -
  let ?c = "model_config m"
  let ?x = "\<lparr>dimB = rows2 idx, dimT = cols2 idx, dimC = n_embd ?c,
             data = map (embed_mat m) (data2 idx)\<rparr> :: real tensor3"
  have pos: "0 < n_embd ?c" using assms(3) by (cases "n_embd ?c") auto
  obtain b bs where bl: "blocks m = b # bs" "wf_block ?c b"
    using assms(1,4) by (cases "blocks m") (auto simp: wf_model_def Let_def)
  have n: "normalized_shape (ln1 b) = n_embd ?c"
    using bl(2) by (simp add: wf_block_def wf_norm_def)
  let ?n1 = "lift3 (n_embd ?c) (map (layer_norm_vec (ln1 b))) ?x"
  have tx: "timed ?x" using embedded_closed(2)[OF assms(1,5,6)] .
  then have t1: "timed ?n1" by (simp add: timed_lift3)
  have "MultiHeadAttention_forward (sa b) ?n1 = Inl ShapeError"
    using bl(2) assms(2,3,6) t1 pos
    by (intro MultiHeadAttention_forward_mismatch[of ?c]) (simp_all add: wf_block_def)
  then have "Block_forward b ?x = Inl ShapeError"
    by (simp add: Block_forward_def LayerNorm_forward_lift3 n)
  then have "forward_logits m idx = Inl ShapeError"
    by (simp add: embedded_closed(1)[OF assms(1,5,6)] bl(1))
  then show ?thesis by (simp add: forward_via_logits)
qed

text \<open>
  Claim C3, as the code has it. When \<open>n_head\<close> does not divide \<open>n_embd\<close> (and \<open>n_head\<close> is
  not 0, \<open>dropout\<close> is a probability), the constructor does not fail: \<^verbatim>\<open>n_embd // n_head\<close> is
  a floor division, \<open>head_size\<close> is the quotient rounded down and the model object is built,
  with \<open>n_head * head_size \<noteq> n_embd\<close>. The error comes later and is a mismatch of shapes:
  if the model has a block, every call of \<^verbatim>\<open>forward\<close> on tokens of the vocabulary
  with at most \<open>block_size\<close> columns fails when the concatenated heads, of width
  \<open>n_head * head_size\<close>, reach the projection of width \<open>n_embd\<close>.
\<close>

theorem construction_floor_division:
  assumes "dropout_ok c" "0 < n_head c" "n_embd c mod n_head c \<noteq> 0"
  shows "\<exists>m n'. BigramLanguageModel_init src c n = Inr (m, n') \<and> wf_model m \<and> model_config m = c \<and>
           n_head c * (n_embd c div n_head c) \<noteq> n_embd c \<and>
           (\<forall>idx targets. 0 < n_layer c \<and> tokens_ok m idx \<and> cols2 idx \<le> block_size c \<longrightarrow>
              BigramLanguageModel_forward m idx targets = Inl ShapeError)"
proof -
  obtain m n' where m: "BigramLanguageModel_init src c n = Inr (m, n')" "wf_model m" "model_config m = c"
    using BigramLanguageModel_init_ok[OF assms(1,2)] by blast
  have ne: "n_head c * (n_embd c div n_head c) \<noteq> n_embd c"
    using assms(3) by (metis mod_mult_self1_is_0 mult.commute)
  have "BigramLanguageModel_forward m idx targets = Inl ShapeError"
    if "0 < n_layer c" "tokens_ok m idx" "cols2 idx \<le> block_size c" for idx targets
    using m(2) assms(2) ne that by (intro forward_heads_mismatch) (simp_all add: m(3))
  then show ?thesis using m ne by blast
qed

theorem construction_floor_division_witness:
  "dropout_ok odd_config \<and> 0 < n_head odd_config \<and> n_embd odd_config mod n_head odd_config \<noteq> 0 \<and>
   (\<exists>m n'. BigramLanguageModel_init (\<lambda>i. 0) odd_config 0 = Inr (m, n') \<and> wf_model m \<and>
      model_config m = odd_config \<and>
      BigramLanguageModel_forward m example_idx None = Inl ShapeError)"
proof -
  have h: "dropout_ok odd_config" "0 < n_head odd_config" "n_embd odd_config mod n_head odd_config \<noteq> 0"
    by (simp_all add: dropout_ok_def odd_config_def)
  obtain m n' where m: "BigramLanguageModel_init (\<lambda>i. 0) odd_config 0 = Inr (m, n')" "wf_model m"
      "model_config m = odd_config"
      "\<forall>idx targets. 0 < n_layer odd_config \<and> tokens_ok m idx \<and> cols2 idx \<le> block_size odd_config \<longrightarrow>
              BigramLanguageModel_forward m idx targets = Inl ShapeError"
    using construction_floor_division[OF h, of "\<lambda>i. 0" 0] by blast
  have "0 < n_layer odd_config \<and> tokens_ok m example_idx \<and> cols2 example_idx \<le> block_size odd_config"
    using m(3) by (simp add: odd_config_def tokens_ok_def wf2_def example_idx_def)
  then have "BigramLanguageModel_forward m example_idx None = Inl ShapeError"
    using m(4) by blast
  then show ?thesis using h m by blast
qed

theorem construction_floor_division_counterexample:
  "n_embd odd_config mod n_head odd_config \<noteq> 0 \<and>
   \<not> isl (BigramLanguageModel_init (\<lambda>i. 0) odd_config 0)"
proof -
  have "dropout_ok odd_config" "0 < n_head odd_config"
    by (simp_all add: dropout_ok_def odd_config_def)
  then obtain m n' where "BigramLanguageModel_init (\<lambda>i. 0) odd_config 0 = Inr (m, n')"
    using BigramLanguageModel_init_ok by blast
  then show ?thesis by (simp add: odd_config_def)
qed

end
